theory Spec2Isabelle
  imports Complex_Main
begin

section \<open>JavaScript values\<close>

text \<open>
  The program (\<^verbatim>\<open>src/index.js\<close>) is dynamically typed: a styling value is a string, an
  object or a function, a theme reference is a string or an object, and the code tells
  them apart with \<^verbatim>\<open>typeof\<close>, truthiness and \<^verbatim>\<open>=== undefined\<close>. The model is
  therefore one datatype of JavaScript values.

  \<^item> Numbers are integers; no claim depends on arithmetic of styling values.
  \<^item> A string is a list of characters, one per code unit.
  \<^item> An object is its list of own enumerable properties, in the order
    \<^verbatim>\<open>Object.keys\<close> reports them.
  \<^item> A function is first-order data: \<open>JPrim n\<close> is the caller-supplied function number
    \<open>n\<close>, the other four constructors are the closures that \<^verbatim>\<open>merger\<close> and
    \<^verbatim>\<open>mergeStyling\<close> build. \<open>call\<close> below runs them.

  An object is a plain one: its prototype is \<^verbatim>\<open>Object.prototype\<close>, and it is taken not
  to shadow \<^verbatim>\<open>hasOwnProperty\<close>. The read of line 97, in \<^verbatim>\<open>mergeStylings\<close>, goes on to
  the prototype chain when there is no own property (\<open>get_chain\<close> below). The other
  reads are \<open>get\<close>, which sees own properties only.
\<close>

datatype jsval =
    JUndefined
  | JNull
  | JBool bool
  | JNum int
  | JStr string
  | JObj "(string \<times> jsval) list"
  | JArr "jsval list"
  | JPrim nat
  | JMerger jsval
  | JLitOverFn jsval jsval
  | JFnOverLit jsval jsval
  | JFnOverFn jsval jsval

type_synonym props = "(string \<times> jsval) list"

datatype jstype = TUndefined | TBoolean | TNumber | TString | TObject | TFunction

fun typeof :: "jsval \<Rightarrow> jstype" where
  "typeof JUndefined = TUndefined"
| "typeof JNull = TObject"
| "typeof (JBool b) = TBoolean"
| "typeof (JNum n) = TNumber"
| "typeof (JStr s) = TString"
| "typeof (JObj ps) = TObject"
| "typeof (JArr xs) = TObject"
| "typeof (JPrim n) = TFunction"
| "typeof (JMerger s) = TFunction"
| "typeof (JLitOverFn l f) = TFunction"
| "typeof (JFnOverLit f l) = TFunction"
| "typeof (JFnOverFn f g) = TFunction"

text \<open>\<^verbatim>\<open>Boolean(v)\<close>, the test of \<^verbatim>\<open>||\<close>, \<^verbatim>\<open>&&\<close>, \<^verbatim>\<open>!\<close> and \<^verbatim>\<open>filter(Boolean)\<close>.\<close>

fun truthy :: "jsval \<Rightarrow> bool" where
  "truthy JUndefined = False"
| "truthy JNull = False"
| "truthy (JBool b) = b"
| "truthy (JNum n) = (n \<noteq> 0)"
| "truthy (JStr s) = (s \<noteq> [])"
| "truthy _ = True"

fun str_val :: "jsval \<Rightarrow> string" where
  "str_val (JStr s) = s"
| "str_val _ = []"

datatype error = TypeError | Thrown string

type_synonym 'a result = "error + 'a"

definition rbind :: "'a result \<Rightarrow> ('a \<Rightarrow> 'b result) \<Rightarrow> 'b result" where
  "rbind m f = (case m of Inl e \<Rightarrow> Inl e | Inr x \<Rightarrow> f x)"

fun fold_res :: "('a \<Rightarrow> 'b \<Rightarrow> 'b result) \<Rightarrow> 'a list \<Rightarrow> 'b \<Rightarrow> 'b result" where
  "fold_res f [] acc = Inr acc"
| "fold_res f (x # xs) acc = rbind (f x acc) (fold_res f xs)"

fun map_res :: "('a \<Rightarrow> 'b result) \<Rightarrow> 'a list \<Rightarrow> 'b list result" where
  "map_res f [] = Inr []"
| "map_res f (x # xs) = rbind (f x) (\<lambda>y. rbind (map_res f xs) (\<lambda>ys. Inr (y # ys)))"

subsection \<open>Decimal property names\<close>

definition digit_char :: "nat \<Rightarrow> char" where
  "digit_char d = ''0123456789'' ! d"

text \<open>The place of a character in a string, if it occurs.\<close>

fun pos :: "char \<Rightarrow> string \<Rightarrow> nat option" where
  "pos c [] = None"
| "pos c (x # xs) = (if x = c then Some 0 else map_option Suc (pos c xs))"

definition digit_val :: "char \<Rightarrow> nat" where
  "digit_val c = (case pos c ''0123456789'' of Some d \<Rightarrow> d | None \<Rightarrow> 0)"

fun show_nat :: "nat \<Rightarrow> string" where
  "show_nat n = (if n < 10 then [digit_char n] else show_nat (n div 10) @ [digit_char (n mod 10)])"

declare show_nat.simps [simp del]

definition show_int :: "int \<Rightarrow> string" where
  "show_int i = (if i < 0 then CHR ''-'' # show_nat (nat (- i)) else show_nat (nat i))"

definition dec_val :: "string \<Rightarrow> nat" where
  "dec_val s = foldl (\<lambda>a c. 10 * a + digit_val c) 0 s"

text \<open>
  An array index is a canonical numeric string below \<open>2^32 - 1\<close>. Own properties with
  such names are enumerated first, in ascending numeric order; all other names follow in
  the order in which they were created.
\<close>

definition is_index :: "string \<Rightarrow> bool" where
  "is_index k = (show_nat (dec_val k) = k \<and> dec_val k < 4294967295)"

subsection \<open>Own properties\<close>

fun own_entries :: "jsval \<Rightarrow> props" where
  "own_entries (JObj ps) = ps"
| "own_entries (JStr s) = map (\<lambda>i. (show_nat i, JStr [s ! i])) [0..<length s]"
| "own_entries (JArr xs) = map (\<lambda>i. (show_nat i, xs ! i)) [0..<length xs]"
| "own_entries _ = []"

definition lookup :: "props \<Rightarrow> string \<Rightarrow> jsval" where
  "lookup ps k = (case map_of ps k of Some v \<Rightarrow> v | None \<Rightarrow> JUndefined)"

definition nullish :: "jsval \<Rightarrow> bool" where
  "nullish v = (v = JUndefined \<or> v = JNull)"

text \<open>
  \<^verbatim>\<open>v[k]\<close> is a TypeError on \<^verbatim>\<open>undefined\<close> and \<^verbatim>\<open>null\<close>. On any other value it is
  \<open>own_prop v k\<close>: the own property, with the characters and the length of a string and the
  elements and the length of an array, and \<^verbatim>\<open>undefined\<close> when there is none.
\<close>

definition in_range :: "string \<Rightarrow> nat \<Rightarrow> bool" where
  "in_range k n = (show_nat (dec_val k) = k \<and> dec_val k < n)"

fun own_prop :: "jsval \<Rightarrow> string \<Rightarrow> jsval" where
  "own_prop (JObj ps) k = lookup ps k"
| "own_prop (JStr s) k =
     (if k = ''length'' then JNum (int (length s))
      else if in_range k (length s) then JStr [s ! dec_val k] else JUndefined)"
| "own_prop (JArr xs) k =
     (if k = ''length'' then JNum (int (length xs))
      else if in_range k (length xs) then xs ! dec_val k else JUndefined)"
| "own_prop _ k = JUndefined"

definition get :: "jsval \<Rightarrow> string \<Rightarrow> jsval result" where
  "get v k = (if nullish v then Inl TypeError else Inr (own_prop v k))"

text \<open>\<^verbatim>\<open>Object.keys(v)\<close> throws on \<^verbatim>\<open>undefined\<close> and \<^verbatim>\<open>null\<close>; \<^verbatim>\<open>for (key in v)\<close> does not.\<close>

definition object_keys :: "jsval \<Rightarrow> string list result" where
  "object_keys v = (if nullish v then Inl TypeError else Inr (map fst (own_entries v)))"

definition for_in_keys :: "jsval \<Rightarrow> string list" where
  "for_in_keys v = map fst (own_entries v)"

fun hasOwnProperty :: "jsval \<Rightarrow> string \<Rightarrow> bool" where
  "hasOwnProperty (JObj ps) k = (k \<in> fst ` set ps)"
| "hasOwnProperty (JStr s) k = (k = ''length'' \<or> in_range k (length s))"
| "hasOwnProperty (JArr xs) k = (k = ''length'' \<or> in_range k (length xs))"
| "hasOwnProperty _ k = False"

text \<open>
  \<^verbatim>\<open>o[k] = v\<close> on an ordinary object: an existing property keeps its place, a new
  array index is placed among the indices, any other new name goes last.
\<close>

fun upd :: "string \<Rightarrow> jsval \<Rightarrow> props \<Rightarrow> props" where
  "upd k v [] = []"
| "upd k v ((k', v') # ps) = (if k' = k then (k, v) # ps else (k', v') # upd k v ps)"

fun ins_index :: "string \<Rightarrow> jsval \<Rightarrow> props \<Rightarrow> props" where
  "ins_index k v [] = [(k, v)]"
| "ins_index k v ((k', v') # ps) =
     (if is_index k' \<and> dec_val k' < dec_val k then (k', v') # ins_index k v ps
      else (k, v) # (k', v') # ps)"

definition put :: "string \<Rightarrow> jsval \<Rightarrow> props \<Rightarrow> props" where
  "put k v ps =
     (if k \<in> fst ` set ps then upd k v ps
      else if is_index k then ins_index k v ps
      else ps @ [(k, v)])"

text \<open>
  The property lists that the runtime can hold: no name twice, and every array index
  before every other name, the indices ascending.
\<close>

definition js_ordered :: "string list \<Rightarrow> bool" where
  "js_ordered ks = sorted_wrt (\<lambda>a b. is_index b \<longrightarrow> is_index a \<and> dec_val a < dec_val b) ks"

definition wf_object :: "props \<Rightarrow> bool" where
  "wf_object ps = (distinct (map fst ps) \<and> js_ordered (map fst ps))"

definition del :: "string \<Rightarrow> props \<Rightarrow> props" where
  "del k ps = filter (\<lambda>p. fst p \<noteq> k) ps"

text \<open>\<^verbatim>\<open>{...acc, ...v}\<close>: the own enumerable properties of \<open>v\<close> are set on \<open>acc\<close> in order.\<close>

definition spread :: "props \<Rightarrow> jsval \<Rightarrow> props" where
  "spread acc v = fold (\<lambda>p o'. put (fst p) (snd p) o') (own_entries v) acc"

fun join_with :: "string \<Rightarrow> string list \<Rightarrow> string" where
  "join_with sep [] = []"
| "join_with sep [x] = x"
| "join_with sep (x # y # ys) = x @ sep @ join_with sep (y # ys)"

section \<open>The environment of the module\<close>

text \<open>
  What \<^verbatim>\<open>index.js\<close> imports is not part of the source under study and is a parameter:
  the module namespace \<^verbatim>\<open>base16\<close> (the built-in registry of themes) with its
  \<^verbatim>\<open>default\<close> theme, the colour utilities \<^verbatim>\<open>parse\<close>, \<^verbatim>\<open>rgb2yuv\<close>, \<^verbatim>\<open>yuv2rgb\<close>,
  \<^verbatim>\<open>rgb2hex\<close>, the behaviour of caller-supplied functions, the text that the
  runtime prints for a function value, and what the built-in prototypes hold
  (\<open>inherited\<close>, explained below). Colour triples are exact rationals.
\<close>

type_synonym triple = "rat \<times> rat \<times> rat"

record env =
  DEFAULT_BASE16 :: props
  base16 :: props
  callPrim :: "nat \<Rightarrow> jsval list \<Rightarrow> jsval result"
  fnSource :: "jsval \<Rightarrow> string"
  parse :: "jsval \<Rightarrow> triple result"
  rgb2yuv :: "triple \<Rightarrow> triple"
  yuv2rgb :: "triple \<Rightarrow> triple"
  rgb2hex :: "triple \<Rightarrow> string"
  inherited :: "jsval \<Rightarrow> string \<Rightarrow> jsval"

definition BASE16_KEYS :: "env \<Rightarrow> string list" where
  "BASE16_KEYS env = map fst (DEFAULT_BASE16 env)"

text \<open>\<^verbatim>\<open>String(v)\<close>, as string concatenation, \<^verbatim>\<open>join\<close> and property keys apply it.\<close>

fun to_string :: "env \<Rightarrow> jsval \<Rightarrow> string" where
  "to_string env JUndefined = ''undefined''"
| "to_string env JNull = ''null''"
| "to_string env (JBool b) = (if b then ''true'' else ''false'')"
| "to_string env (JNum n) = show_int n"
| "to_string env (JStr s) = s"
| "to_string env (JObj ps) = ''[object Object]''"
| "to_string env (JArr xs) =
     join_with '','' (map (\<lambda>x. if x = JUndefined \<or> x = JNull then [] else to_string env x) xs)"
| "to_string env f = fnSource env f"

text \<open>\<^verbatim>\<open>xs.filter(Boolean).join(' ')\<close>\<close>

definition join_truthy :: "env \<Rightarrow> jsval list \<Rightarrow> string" where
  "join_truthy env xs = join_with '' '' (map (to_string env) (filter truthy xs))"

subsection \<open>Inherited properties\<close>

text \<open>
  A read \<^verbatim>\<open>v[k]\<close> that finds no own property goes on to the prototype chain of \<open>v\<close>.
  The chain of a plain object is \<^verbatim>\<open>Object.prototype\<close>. The names that
  \<^verbatim>\<open>Object.prototype\<close> defines are fixed by the language, and \<^verbatim>\<open>index.js\<close> adds none;
  the values under them are the runtime's, so they are a parameter: \<open>inherited env v k\<close>
  is what the chain of \<open>v\<close> gives under the name \<open>k\<close>. For a value that is not an
  object (a string, an array, a function, ...) the chain is longer, and all of it is
  left to the parameter.
\<close>

definition object_prototype_names :: "string list" where
  "object_prototype_names =
     [''constructor'', ''hasOwnProperty'', ''isPrototypeOf'', ''propertyIsEnumerable'',
      ''toLocaleString'', ''toString'', ''valueOf'', ''__proto__'',
      ''__defineGetter__'', ''__defineSetter__'', ''__lookupGetter__'', ''__lookupSetter__'']"

definition inherited_prop :: "env \<Rightarrow> jsval \<Rightarrow> string \<Rightarrow> jsval" where
  "inherited_prop env v k =
     (case v of
        JObj ps \<Rightarrow> if k \<in> set object_prototype_names then inherited env v k else JUndefined
      | _ \<Rightarrow> inherited env v k)"

definition read_prop :: "env \<Rightarrow> jsval \<Rightarrow> string \<Rightarrow> jsval" where
  "read_prop env v k = (if hasOwnProperty v k then own_prop v k else inherited_prop env v k)"

definition get_chain :: "env \<Rightarrow> jsval \<Rightarrow> string \<Rightarrow> jsval result" where
  "get_chain env v k = (if nullish v then Inl TypeError else Inr (read_prop env v k))"

section \<open>The styling merger\<close>

text \<open>
  \<^verbatim>\<open>merger(styling)(prevStyling)\<close>, lines 29-34. \<open>JMerger styling\<close> is the function
  \<^verbatim>\<open>merger(styling)\<close>.
\<close>

definition or_empty :: "jsval \<Rightarrow> jsval" where
  "or_empty v = (if truthy v then v else JObj [])"

definition merger :: "env \<Rightarrow> jsval \<Rightarrow> jsval \<Rightarrow> jsval result" where
  "merger env styling prevStyling =
     rbind (get prevStyling ''className'') (\<lambda>pc.
     rbind (get styling ''className'') (\<lambda>sc.
     rbind (get prevStyling ''style'') (\<lambda>ps.
     rbind (get styling ''style'') (\<lambda>ss.
       Inr (JObj [(''className'', JStr (join_truthy env [pc, sc])),
                  (''style'', JObj (spread (spread [] (or_empty ps)) (or_empty ss)))])))))"

text \<open>
  \<^verbatim>\<open>mergeStyling\<close>, lines 36-87. The outer \<^verbatim>\<open>switch\<close> has no \<^verbatim>\<open>break\<close>: when the inner
  \<^verbatim>\<open>switch\<close> of a case returns nothing, control falls into the next case. Each inner
  \<^verbatim>\<open>switch\<close> is a function to \<open>option\<close>, \<open>None\<close> for leaving it without \<^verbatim>\<open>return\<close>.
\<close>

definition case_string :: "jsval \<Rightarrow> jsval \<Rightarrow> jsval option" where
  "case_string customStyling defaultStyling =
     (case typeof defaultStyling of
        TString \<Rightarrow> Some (JStr (join_with '' ''
           (map str_val (filter truthy [defaultStyling, customStyling]))))
      | TObject \<Rightarrow> Some (JMerger (JObj [(''className'', customStyling), (''style'', defaultStyling)]))
      | TFunction \<Rightarrow> Some (JLitOverFn (JObj [(''className'', customStyling)]) defaultStyling)
      | _ \<Rightarrow> None)"

definition case_object :: "jsval \<Rightarrow> jsval \<Rightarrow> jsval option" where
  "case_object customStyling defaultStyling =
     (case typeof defaultStyling of
        TString \<Rightarrow> Some (JMerger (JObj [(''className'', defaultStyling), (''style'', customStyling)]))
      | TObject \<Rightarrow> Some (JObj (spread (spread [] defaultStyling) customStyling))
      | TFunction \<Rightarrow> Some (JLitOverFn (JObj [(''style'', customStyling)]) defaultStyling)
      | _ \<Rightarrow> None)"

definition case_function :: "jsval \<Rightarrow> jsval \<Rightarrow> jsval option" where
  "case_function customStyling defaultStyling =
     (case typeof defaultStyling of
        TString \<Rightarrow> Some (JFnOverLit customStyling (JObj [(''className'', defaultStyling)]))
      | TObject \<Rightarrow> Some (JFnOverLit customStyling (JObj [(''style'', defaultStyling)]))
      | TFunction \<Rightarrow> Some (JFnOverFn customStyling defaultStyling)
      | _ \<Rightarrow> None)"

fun fall_through :: "jsval option list \<Rightarrow> jsval" where
  "fall_through [] = JUndefined"
| "fall_through (Some v # rest) = v"
| "fall_through (None # rest) = fall_through rest"

definition mergeStyling :: "jsval \<Rightarrow> jsval \<Rightarrow> jsval" where
  "mergeStyling customStyling defaultStyling =
     (if customStyling = JUndefined then defaultStyling
      else if defaultStyling = JUndefined then customStyling
      else (case typeof customStyling of
              TString \<Rightarrow> fall_through [case_string customStyling defaultStyling,
                                       case_object customStyling defaultStyling,
                                       case_function customStyling defaultStyling]
            | TObject \<Rightarrow> fall_through [case_object customStyling defaultStyling,
                                       case_function customStyling defaultStyling]
            | TFunction \<Rightarrow> fall_through [case_function customStyling defaultStyling]
            | _ \<Rightarrow> JUndefined))"

text \<open>
  Calling a function value with an argument list. The closures of \<^verbatim>\<open>mergeStyling\<close>
  take \<^verbatim>\<open>(styling, ...args)\<close>: \<open>arg0\<close> is \<^verbatim>\<open>styling\<close>, the tail is \<^verbatim>\<open>args\<close>.
\<close>

definition arg0 :: "jsval list \<Rightarrow> jsval" where
  "arg0 args = (case args of [] \<Rightarrow> JUndefined | a # _ \<Rightarrow> a)"

fun call :: "env \<Rightarrow> jsval \<Rightarrow> jsval list \<Rightarrow> jsval result" where
  "call env (JPrim n) args = callPrim env n args"
| "call env (JMerger styling) args = merger env styling (arg0 args)"
| "call env (JLitOverFn lit defaultStyling) args =
     rbind (call env defaultStyling (arg0 args # tl args)) (merger env lit)"
| "call env (JFnOverLit customStyling lit) args =
     rbind (merger env (arg0 args) lit) (\<lambda>m. call env customStyling (m # tl args))"
| "call env (JFnOverFn customStyling defaultStyling) args =
     rbind (call env defaultStyling (arg0 args # tl args))
       (\<lambda>r. call env customStyling (r # tl args))"
| "call env _ args = Inl TypeError"

section \<open>The styling map merger\<close>

text \<open>
  \<^verbatim>\<open>mergeStylings\<close>, lines 89-101: the keys of the default map, then every key of the
  custom map that \<^verbatim>\<open>indexOf\<close> does not find yet; the merged object is filled in that
  order. Line 97 reads both maps under every key of the list, also under a key that
  only one of them has: the read of the other map is then a read through its prototype
  chain, and gives a function for a key such as \<^verbatim>\<open>constructor\<close>.

  The assignment of line 97 is \<open>put\<close>. That is what it does for every name but
  \<^verbatim>\<open>__proto__\<close>, under which an assignment sets the prototype of the merged object
  and makes no own property; the property lists do not record prototypes, and the
  theorems on \<open>mergeStylings\<close> are about maps that have no own property of that name.
\<close>

definition push_new :: "string \<Rightarrow> string list \<Rightarrow> string list" where
  "push_new key keys = (if key \<in> set keys then keys else keys @ [key])"

definition merge_keys :: "jsval \<Rightarrow> string list \<Rightarrow> string list" where
  "merge_keys customStylings dkeys = fold push_new (for_in_keys customStylings) dkeys"

definition merge_entry :: "env \<Rightarrow> jsval \<Rightarrow> jsval \<Rightarrow> string \<Rightarrow> props \<Rightarrow> props result" where
  "merge_entry env customStylings defaultStylings key mergedStyling =
     rbind (get_chain env customStylings key) (\<lambda>c.
     rbind (get_chain env defaultStylings key) (\<lambda>d.
       Inr (put key (mergeStyling c d) mergedStyling)))"

definition mergeStylings :: "env \<Rightarrow> jsval \<Rightarrow> jsval \<Rightarrow> jsval result" where
  "mergeStylings env customStylings defaultStylings =
     rbind (object_keys defaultStylings) (\<lambda>dkeys.
     rbind (fold_res (merge_entry env customStylings defaultStylings)
              (merge_keys customStylings dkeys) [])
       (\<lambda>m. Inr (JObj m)))"

section \<open>The key resolver\<close>

text \<open>
  The callback of the \<^verbatim>\<open>reduce\<close> of lines 114-124. A function styling receives the
  accumulator and the extra arguments; what it returns is spread over the accumulator.
\<close>

definition style_step :: "env \<Rightarrow> jsval list \<Rightarrow> jsval \<Rightarrow> props \<Rightarrow> props result" where
  "style_step env args s obj =
     (case typeof s of
        TString \<Rightarrow>
          Inr (put ''className'' (JStr (join_truthy env [lookup obj ''className'', s])) obj)
      | TObject \<Rightarrow>
          Inr (put ''style'' (JObj (spread (spread [] (lookup obj ''style'')) s)) obj)
      | TFunction \<Rightarrow>
          rbind (call env s (JObj obj # args)) (\<lambda>r. Inr (spread (spread [] (JObj obj)) r))
      | _ \<Rightarrow> Inr obj)"

text \<open>
  \<^verbatim>\<open>getStylingByKeys\<close>, lines 103-135. A key that is not a string is converted to a
  property name when it indexes \<^verbatim>\<open>mergedStyling\<close>.
\<close>

definition getStylingByKeys :: "env \<Rightarrow> jsval \<Rightarrow> jsval \<Rightarrow> jsval list \<Rightarrow> jsval result" where
  "getStylingByKeys env mergedStyling keys args =
     (if keys = JNull then Inr mergedStyling
      else
        let keys1 = (case keys of JArr ks \<Rightarrow> ks | _ \<Rightarrow> [keys]) in
        rbind (map_res (\<lambda>key. get mergedStyling (to_string env key)) keys1) (\<lambda>vals.
        rbind (fold_res (style_step env args) (filter truthy vals)
                 [(''className'', JStr []), (''style'', JObj [])]) (\<lambda>props.
        let props1 = (if \<not> truthy (lookup props ''className'')
                      then del ''className'' props else props) in
        rbind (object_keys (lookup props1 ''style'')) (\<lambda>styleKeys.
          Inr (JObj (if length styleKeys = 0 then del ''style'' props1 else props1))))))"

section \<open>Theme inversion\<close>

text \<open>\<^verbatim>\<open>flip\<close>, line 17, and \<^verbatim>\<open>invertColor\<close>, lines 19-25.\<close>

definition flip :: "rat \<Rightarrow> rat" where
  "flip x = (if x < 1 / 4 then 1 else if x < 1 / 2 then 9 / 10 - x else 11 / 10 - x)"

definition invertColor :: "env \<Rightarrow> jsval \<Rightarrow> jsval result" where
  "invertColor env c =
     rbind (parse env c) (\<lambda>rgb.
       case rgb2yuv env rgb of
         (y, u, v) \<Rightarrow> Inr (JStr (rgb2hex env (yuv2rgb env (flip y, u, v)))))"

text \<open>\<^verbatim>\<open>/^base/.test(key)\<close>\<close>

definition starts_with_base :: "string \<Rightarrow> bool" where
  "starts_with_base key = (take 4 key = ''base'')"

text \<open>\<^verbatim>\<open>invertTheme\<close>, lines 137-140.\<close>

definition invert_value :: "env \<Rightarrow> string \<Rightarrow> jsval \<Rightarrow> jsval result" where
  "invert_value env key v =
     (if starts_with_base key then invertColor env v
      else if key = ''scheme'' then Inr (JStr (to_string env v @ '':inverted''))
      else Inr v)"

definition invert_entry :: "env \<Rightarrow> jsval \<Rightarrow> string \<Rightarrow> props \<Rightarrow> props result" where
  "invert_entry env theme key t =
     rbind (get theme key) (\<lambda>v.
     rbind (invert_value env key v) (\<lambda>v'.
       Inr (put key v' t)))"

definition invertTheme :: "env \<Rightarrow> jsval \<Rightarrow> jsval result" where
  "invertTheme env theme =
     rbind (object_keys theme) (\<lambda>keys.
     rbind (fold_res (invert_entry env theme) keys []) (\<lambda>t. Inr (JObj t)))"

section \<open>Theme resolution\<close>

text \<open>\<^verbatim>\<open>theme.split(':')\<close>\<close>

fun split_on :: "char \<Rightarrow> string \<Rightarrow> string list" where
  "split_on c [] = [[]]"
| "split_on c (x # xs) =
     (if x = c then [] # split_on c xs
      else (case split_on c xs of [] \<Rightarrow> [[x]] | p # ps \<Rightarrow> (x # p) # ps))"

text \<open>The \<open>i\<close>-th name bound by an array destructuring pattern.\<close>

definition part :: "string list \<Rightarrow> nat \<Rightarrow> jsval" where
  "part ps i = (if i < length ps then JStr (ps ! i) else JUndefined)"

text \<open>\<^verbatim>\<open>getBase16Theme\<close>, lines 175-189.\<close>

definition getBase16Theme :: "env \<Rightarrow> jsval \<Rightarrow> jsval \<Rightarrow> jsval result" where
  "getBase16Theme env theme base16Themes =
     rbind (if truthy theme then get theme ''extend'' else Inr theme) (\<lambda>c.
     rbind (if truthy c then get theme ''extend'' else Inr theme) (\<lambda>theme1.
     rbind (if typeof theme1 = TString then
              (let parts = split_on CHR '':'' (str_val theme1);
                   themeName = str_val (part parts 0);
                   modifier = part parts 1
               in rbind (get (if truthy base16Themes then base16Themes else JObj []) themeName)
                    (\<lambda>a.
                  rbind (if truthy a then Inr a else get (JObj (base16 env)) themeName) (\<lambda>th.
                    if modifier = JStr ''inverted'' then invertTheme env th else Inr th)))
            else Inr theme1) (\<lambda>theme2.
       Inr (if truthy theme2 \<and> hasOwnProperty theme2 ''base00'' then theme2 else JUndefined))))"

section \<open>The entry point\<close>

text \<open>
  \<^verbatim>\<open>createStyling\<close>, lines 142-173, applied to all three of its curried parameters.
  \<^verbatim>\<open>getStylingFromBase16\<close> is the caller's function from the theme to the default
  styling map. The three intermediate values of the body are functions of their own, so
  that the theorems can name them.
\<close>

definition or_default :: "jsval \<Rightarrow> jsval \<Rightarrow> jsval" where
  "or_default v d = (if v = JUndefined then d else v)"

text \<open>Lines 148-151: the two options, each with its default.\<close>

definition read_options :: "env \<Rightarrow> jsval \<Rightarrow> (jsval \<times> jsval) result" where
  "read_options env options =
     rbind (get options ''defaultBase16'') (\<lambda>db.
     rbind (get options ''base16Themes'') (\<lambda>bt.
       Inr (or_default db (JObj (DEFAULT_BASE16 env)), or_default bt JNull)))"

text \<open>Lines 153-159: the resolved theme, overlaid by the fields of the argument.\<close>

definition effective_input :: "env \<Rightarrow> jsval \<Rightarrow> jsval \<Rightarrow> jsval result" where
  "effective_input env themeOrStyling base16Themes =
     rbind (getBase16Theme env themeOrStyling base16Themes) (\<lambda>base16Theme.
       Inr (if truthy base16Theme
            then JObj (spread (spread [] base16Theme) themeOrStyling)
            else themeOrStyling))"

text \<open>Lines 161-162.\<close>

definition theme_entry :: "jsval \<Rightarrow> jsval \<Rightarrow> string \<Rightarrow> props \<Rightarrow> props result" where
  "theme_entry themeOrStyling defaultBase16 key t =
     rbind (get themeOrStyling key) (\<lambda>v.
     rbind (if truthy v then Inr v else get defaultBase16 key) (\<lambda>v'.
       Inr (put key v' t)))"

definition build_theme :: "env \<Rightarrow> jsval \<Rightarrow> jsval \<Rightarrow> props result" where
  "build_theme env themeOrStyling defaultBase16 =
     fold_res (theme_entry themeOrStyling defaultBase16) (BASE16_KEYS env) []"

text \<open>Lines 164-166.\<close>

definition custom_entry :: "env \<Rightarrow> jsval \<Rightarrow> string \<Rightarrow> props \<Rightarrow> props result" where
  "custom_entry env themeOrStyling key s =
     (if key \<notin> set (BASE16_KEYS env)
      then rbind (get themeOrStyling key) (\<lambda>v. Inr (put key v s))
      else Inr s)"

definition build_customStyling :: "env \<Rightarrow> jsval \<Rightarrow> props result" where
  "build_customStyling env themeOrStyling =
     rbind (object_keys themeOrStyling) (\<lambda>keys.
       fold_res (custom_entry env themeOrStyling) keys [])"

text \<open>
  Line 172, \<^verbatim>\<open>curry(getStylingByKeys, 2)(mergedStyling, ...args)\<close>: without further
  arguments the result is a function that awaits the keys; with some, the first of them
  is the keys and \<^verbatim>\<open>getStylingByKeys\<close> runs at once.
\<close>

datatype resolver = Awaiting jsval | Resolved jsval

definition curry_getStylingByKeys :: "env \<Rightarrow> jsval \<Rightarrow> jsval list \<Rightarrow> resolver result" where
  "curry_getStylingByKeys env mergedStyling args =
     (case args of
        [] \<Rightarrow> Inr (Awaiting mergedStyling)
      | keys # rest \<Rightarrow> rbind (getStylingByKeys env mergedStyling keys rest) (\<lambda>r. Inr (Resolved r)))"

definition createStyling ::
  "env \<Rightarrow> (jsval \<Rightarrow> jsval result) \<Rightarrow> jsval \<Rightarrow> jsval \<Rightarrow> jsval list \<Rightarrow> resolver result" where
  "createStyling env getStylingFromBase16 options0 themeOrStyling0 args =
     (let options = or_default options0 (JObj []);
          themeOrStyling = or_default themeOrStyling0 (JObj [])
      in
      rbind (read_options env options) (\<lambda>opts.
      rbind (effective_input env themeOrStyling (snd opts)) (\<lambda>themeOrStyling1.
      rbind (build_theme env themeOrStyling1 (fst opts)) (\<lambda>theme.
      rbind (build_customStyling env themeOrStyling1) (\<lambda>customStyling.
      rbind (getStylingFromBase16 (JObj theme)) (\<lambda>defaultStyling.
      rbind (mergeStylings env (JObj customStyling) defaultStyling) (\<lambda>mergedStyling.
        curry_getStylingByKeys env mergedStyling args)))))))"

text \<open>Calling what \<^verbatim>\<open>createStyling\<close> returned with \<^verbatim>\<open>(keys, ...args)\<close>.\<close>

definition resolve :: "env \<Rightarrow> resolver \<Rightarrow> jsval \<Rightarrow> jsval list \<Rightarrow> jsval result" where
  "resolve env r keys args =
     (case r of Awaiting mergedStyling \<Rightarrow> getStylingByKeys env mergedStyling keys args
      | Resolved v \<Rightarrow> call env v (keys # args))"

text \<open>\<^verbatim>\<open>createStyling(getStylingFromBase16, options, themeOrStyling)(keys)\<close>\<close>

definition styling_for ::
  "env \<Rightarrow> (jsval \<Rightarrow> jsval result) \<Rightarrow> jsval \<Rightarrow> jsval \<Rightarrow> jsval \<Rightarrow> jsval result" where
  "styling_for env getStylingFromBase16 options themeOrStyling keys =
     rbind (createStyling env getStylingFromBase16 options themeOrStyling [])
       (\<lambda>r. resolve env r keys [])"

section \<open>Sample data\<close>

text \<open>
  Closed statements need the parameters of the environment at concrete values.
\<close>

text \<open>
  Modelled from the spec: the built-in default theme \<^verbatim>\<open>base16.default\<close> belongs to the
  package \<^verbatim>\<open>base16\<close>, which is not part of the source. Section 3 of the specification
  fixes its sixteen colour keys \<^verbatim>\<open>base00\<close> to \<^verbatim>\<open>base0F\<close>; the colours are sample
  values.
\<close>

definition sample_default :: props where
  "sample_default =
     [(''base00'', JStr ''#181818''), (''base01'', JStr ''#282828''),
      (''base02'', JStr ''#383838''), (''base03'', JStr ''#585858''),
      (''base04'', JStr ''#b8b8b8''), (''base05'', JStr ''#d8d8d8''),
      (''base06'', JStr ''#e8e8e8''), (''base07'', JStr ''#f8f8f8''),
      (''base08'', JStr ''#ab4642''), (''base09'', JStr ''#dc9656''),
      (''base0A'', JStr ''#f7ca88''), (''base0B'', JStr ''#a1b56c''),
      (''base0C'', JStr ''#86c1b9''), (''base0D'', JStr ''#7cafc2''),
      (''base0E'', JStr ''#ba8baf''), (''base0F'', JStr ''#a16946'')]"

text \<open>
  The colour utilities \<^verbatim>\<open>rgb2yuv\<close> and \<^verbatim>\<open>yuv2rgb\<close> of \<^verbatim>\<open>./colorConverters\<close> and
  \<^verbatim>\<open>parse\<close> and \<^verbatim>\<open>rgb2hex\<close> of \<^verbatim>\<open>pure-color\<close> are missing from the source. Section 6
  of the specification contracts that the four are inverses of each other up to rounding
  and that luma is the first component of the YUV triple. The four sample utilities
  below meet the contract with no rounding error before the final encoding.
\<close>

text \<open>The value of a hexadecimal digit, and of two of them.\<close>

definition hex_val :: "char \<Rightarrow> nat option" where
  "hex_val c = (case pos c ''0123456789abcdef'' of
                  Some n \<Rightarrow> Some n
                | None \<Rightarrow> map_option (\<lambda>n. n + 10) (pos c ''ABCDEF''))"

definition hex_pair :: "char \<Rightarrow> char \<Rightarrow> nat option" where
  "hex_pair a b = (case (hex_val a, hex_val b) of
                     (Some x, Some y) \<Rightarrow> Some (16 * x + y)
                   | _ \<Rightarrow> None)"

text \<open>
  Modelled from the spec: \<^verbatim>\<open>parse\<close>, from a colour string to its RGB triple (section 6).
  The colour strings are those of the form \<^verbatim>\<open>#rrggbb\<close>, the channels run from 0 to 255,
  and any other value is rejected (section 7).
\<close>

definition ideal_parse :: "jsval \<Rightarrow> triple result" where
  "ideal_parse c =
     (let s = str_val c in
      if typeof c = TString \<and> length s = 7 \<and> s ! 0 = CHR ''#'' then
        (case (hex_pair (s ! 1) (s ! 2), hex_pair (s ! 3) (s ! 4), hex_pair (s ! 5) (s ! 6)) of
           (Some r, Some g, Some b) \<Rightarrow> Inr (of_nat r, of_nat g, of_nat b)
         | _ \<Rightarrow> Inl (Thrown ''parse''))
      else Inl (Thrown ''parse''))"

text \<open>
  Modelled from the spec: \<^verbatim>\<open>rgb2yuv\<close>, from RGB to a luma and chroma triple with the
  luma first (sections 4.3 and 6). The transform is the textbook one: luma weights
  0.299, 0.587 and 0.114 on channels scaled to 1, chroma the scaled differences of blue
  and red from the luma.
\<close>

definition ideal_rgb2yuv :: "triple \<Rightarrow> triple" where
  "ideal_rgb2yuv rgb =
     (case rgb of (r, g, b) \<Rightarrow>
        let y = (299 / 1000) * (r / 255) + (587 / 1000) * (g / 255) + (114 / 1000) * (b / 255)
        in (y, (492 / 1000) * (b / 255 - y), (877 / 1000) * (r / 255 - y)))"

text \<open>
  Modelled from the spec: \<^verbatim>\<open>yuv2rgb\<close>, the inverse of \<^verbatim>\<open>rgb2yuv\<close> (section 6), here the
  exact inverse.
\<close>

definition ideal_yuv2rgb :: "triple \<Rightarrow> triple" where
  "ideal_yuv2rgb yuv =
     (case yuv of (y, u, v) \<Rightarrow>
        let r = y + v / (877 / 1000);
            b = y + u / (492 / 1000);
            g = (y - (299 / 1000) * r - (114 / 1000) * b) / (587 / 1000)
        in (255 * r, 255 * g, 255 * b))"

text \<open>A channel as two hexadecimal digits, rounded to the nearest of 0 to 255.\<close>

definition hex_digit :: "nat \<Rightarrow> char" where
  "hex_digit d = ''0123456789abcdef'' ! d"

definition channel :: "rat \<Rightarrow> string" where
  "channel x =
     (let n = nat (min 255 (max 0 (floor (x + 1 / 2))))
      in [hex_digit (n div 16), hex_digit (n mod 16)])"

text \<open>
  Modelled from the spec: \<^verbatim>\<open>rgb2hex\<close>, from an RGB triple to its \<^verbatim>\<open>#rrggbb\<close> string
  (section 6), the inverse of \<^verbatim>\<open>parse\<close> on whole channels.
\<close>

definition ideal_rgb2hex :: "triple \<Rightarrow> string" where
  "ideal_rgb2hex rgb = (case rgb of (r, g, b) \<Rightarrow> CHR ''#'' # channel r @ channel g @ channel b)"

text \<open>
  The sample environment: the sample table, a registry that holds it under the name
  \<^verbatim>\<open>default\<close>, the sample colour utilities, and no caller-supplied function. Under the
  names of \<^verbatim>\<open>Object.prototype\<close> every value inherits a function, which stands as
  function number 0, and under \<^verbatim>\<open>__proto__\<close> an object with no enumerable property.
\<close>

definition sample_env :: env where
  "sample_env =
     \<lparr> DEFAULT_BASE16 = sample_default,
       base16 = [(''default'', JObj sample_default)],
       callPrim = (\<lambda>n args. Inl (Thrown ''not a sample function'')),
       fnSource = (\<lambda>f. ''function () { [code] }''),
       parse = ideal_parse,
       rgb2yuv = ideal_rgb2yuv,
       yuv2rgb = ideal_yuv2rgb,
       rgb2hex = ideal_rgb2hex,
       inherited = (\<lambda>v k. if k = ''__proto__'' then JObj []
                           else if k \<in> set object_prototype_names then JPrim 0
                           else JUndefined) \<rparr>"

text \<open>
  The \<^verbatim>\<open>deriveDefaults\<close> of the end-to-end scenario of section 8 of the specification:
  every key of the theme becomes a semantic key whose styling is
  \<^verbatim>\<open>{style: {color: theme[key]}}\<close>.
\<close>

definition color_entry :: "jsval \<Rightarrow> string \<Rightarrow> props \<Rightarrow> props result" where
  "color_entry theme key m =
     rbind (get theme key) (\<lambda>c.
       Inr (put key (JObj [(''style'', JObj [(''color'', c)])]) m))"

definition deriveDefaults :: "jsval \<Rightarrow> jsval result" where
  "deriveDefaults theme =
     rbind (object_keys theme) (\<lambda>keys.
     rbind (fold_res (color_entry theme) keys []) (\<lambda>m. Inr (JObj m)))"

text \<open>The theme and the override of that scenario.\<close>

definition scenario_theme :: props where
  "scenario_theme =
     [(''base00'', JStr ''#000000''), (''base01'', JStr ''#111111''),
      (''base02'', JStr ''#222222''), (''base03'', JStr ''#333333''),
      (''base04'', JStr ''#444444''), (''base05'', JStr ''#555555''),
      (''base06'', JStr ''#666666''), (''base07'', JStr ''#777777''),
      (''base08'', JStr ''#888888''), (''base09'', JStr ''#999999''),
      (''base0A'', JStr ''#aaaaaa''), (''base0B'', JStr ''#bbbbbb''),
      (''base0C'', JStr ''#cccccc''), (''base0D'', JStr ''#ff0000''),
      (''base0E'', JStr ''#eeeeee''), (''base0F'', JStr ''#ffffff'')]"

definition scenario_override :: jsval where
  "scenario_override = JObj [(''style'', JObj [(''fontWeight'', JStr ''bold'')])]"

definition scenario_expected :: jsval where
  "scenario_expected =
     JObj [(''style'', JObj [(''color'', JStr ''#ff0000''), (''fontWeight'', JStr ''bold'')])]"

section \<open>Decimal names and property lists\<close>

lemma digit_val_digit_char: "d < 10 \<Longrightarrow> digit_val (digit_char d) = d"
proof -
  assume "d < 10"
  then consider "d = 0" | "d = 1" | "d = 2" | "d = 3" | "d = 4" | "d = 5" | "d = 6"
    | "d = 7" | "d = 8" | "d = 9"
    by atomize_elim arith
  then show ?thesis
    by cases (simp_all add: digit_char_def digit_val_def)
qed

lemma dec_val_snoc: "dec_val (s @ [c]) = 10 * dec_val s + digit_val c"
  by (simp add: dec_val_def)

lemma dec_val_show_nat: "dec_val (show_nat n) = n"
proof (induction n rule: show_nat.induct)
  case (1 n)
  show ?case
  proof (cases "n < 10")
    case True
    then show ?thesis
      by (subst show_nat.simps) (simp add: dec_val_def digit_val_digit_char)
  next
    case False
    then have "dec_val (show_nat (n div 10)) = n div 10"
      using 1 by simp
    with False show ?thesis
      by (subst show_nat.simps) (simp add: dec_val_snoc digit_val_digit_char)
  qed
qed

lemma lookup_Nil: "lookup [] k = JUndefined"
  by (simp add: lookup_def)

lemma lookup_Cons: "lookup ((k', v) # ps) k = (if k = k' then v else lookup ps k)"
  by (simp add: lookup_def)

lemma in_keys_iff: "k \<in> fst ` set ps \<longleftrightarrow> map_of ps k \<noteq> None"
  by (simp add: map_of_eq_None_iff)

lemma lookup_notin: "k \<notin> fst ` set ps \<Longrightarrow> lookup ps k = JUndefined"
  by (auto simp: lookup_def in_keys_iff)

lemma map_of_upd:
  "map_of (upd k v ps) k' = (if k' = k \<and> k \<in> fst ` set ps then Some v else map_of ps k')"
  by (induction ps) (auto simp: in_keys_iff)

lemma map_of_ins_index:
  "map_of (ins_index k v ps) k' = (if k' = k then Some v else map_of ps k')"
  by (induction ps) auto

lemma map_of_put: "map_of (put k v ps) k' = (if k' = k then Some v else map_of ps k')"
  by (auto simp: put_def map_of_upd map_of_ins_index in_keys_iff map_add_def split: option.splits)

lemma lookup_put: "lookup (put k v ps) k' = (if k' = k then v else lookup ps k')"
  by (simp add: lookup_def map_of_put)

lemma keys_upd: "map fst (upd k v ps) = map fst ps"
  by (induction ps) auto

lemma keys_put: "fst ` set (put k v ps) = insert k (fst ` set ps)"
proof -
  have "k' \<in> fst ` set (put k v ps) \<longleftrightarrow> k' \<in> insert k (fst ` set ps)" for k'
    unfolding in_keys_iff insert_iff by (simp add: map_of_put)
  then show ?thesis by blast
qed

lemma keys_ins_index: "fst ` set (ins_index k v ps) = insert k (fst ` set ps)"
proof -
  have "k' \<in> fst ` set (ins_index k v ps) \<longleftrightarrow> k' \<in> insert k (fst ` set ps)" for k'
    unfolding in_keys_iff insert_iff by (simp add: map_of_ins_index)
  then show ?thesis by blast
qed

lemma distinct_keys_ins_index:
  "k \<notin> fst ` set ps \<Longrightarrow> distinct (map fst ps) \<Longrightarrow> distinct (map fst (ins_index k v ps))"
  by (induction ps) (auto simp: keys_ins_index)

lemma distinct_keys_put: "distinct (map fst ps) \<Longrightarrow> distinct (map fst (put k v ps))"
  by (simp add: put_def keys_upd distinct_keys_ins_index)

lemma is_index_eq: "is_index a \<Longrightarrow> is_index b \<Longrightarrow> dec_val a = dec_val b \<Longrightarrow> a = b"
  by (metis is_index_def)

lemma js_ordered_Cons:
  "js_ordered (k # ks) \<longleftrightarrow>
     (\<forall>y\<in>set ks. is_index y \<longrightarrow> is_index k \<and> dec_val k < dec_val y) \<and> js_ordered ks"
  by (simp add: js_ordered_def)

lemma js_ordered_ins_index:
  "js_ordered (map fst ps) \<Longrightarrow> is_index k \<Longrightarrow> k \<notin> fst ` set ps \<Longrightarrow>
   js_ordered (map fst (ins_index k v ps))"
proof (induction ps)
  case Nil
  then show ?case by (simp add: js_ordered_def)
next
  case (Cons p ps)
  obtain k' v' where p: "p = (k', v')" by (cases p)
  from Cons.prems have ord: "\<forall>y\<in>fst ` set ps. is_index y \<longrightarrow> is_index k' \<and> dec_val k' < dec_val y"
    and tl: "js_ordered (map fst ps)" and ne: "k \<noteq> k'" and fresh: "k \<notin> fst ` set ps"
    by (auto simp: p js_ordered_Cons)
  show ?case
  proof (cases "is_index k' \<and> dec_val k' < dec_val k")
    case True
    then show ?thesis
      using ord Cons.IH [OF tl Cons.prems(2) fresh]
      by (auto simp: p js_ordered_Cons keys_ins_index)
  next
    case False
    have "dec_val k < dec_val k'" if "is_index k'"
      using that False ne is_index_eq [OF Cons.prems(2) that] by force
    moreover have "dec_val k < dec_val y" if "y \<in> fst ` set ps" "is_index y" for y
      using that ord False by force
    ultimately show ?thesis
      using False ord tl Cons.prems(2) by (auto simp: p js_ordered_Cons)
  qed
qed

lemma js_ordered_snoc:
  "js_ordered (ks @ [k]) \<longleftrightarrow>
     js_ordered ks \<and> (is_index k \<longrightarrow> (\<forall>x\<in>set ks. is_index x \<and> dec_val x < dec_val k))"
  by (auto simp: js_ordered_def sorted_wrt_append)

lemma js_ordered_put: "js_ordered (map fst ps) \<Longrightarrow> js_ordered (map fst (put k v ps))"
  by (simp add: put_def keys_upd js_ordered_ins_index js_ordered_snoc)

lemma ins_index_last:
  "\<forall>x\<in>fst ` set ps. is_index x \<and> dec_val x < dec_val k \<Longrightarrow> ins_index k v ps = ps @ [(k, v)]"
  by (induction ps) auto

lemma put_last:
  "k \<notin> fst ` set ps \<Longrightarrow> js_ordered (map fst ps @ [k]) \<Longrightarrow> put k v ps = ps @ [(k, v)]"
  by (simp add: put_def js_ordered_snoc ins_index_last)

lemma other_keys_ins_index:
  "is_index k \<Longrightarrow>
   filter (\<lambda>x. \<not> is_index x) (map fst (ins_index k v ps)) = filter (\<lambda>x. \<not> is_index x) (map fst ps)"
  by (induction ps) auto

lemma other_keys_put:
  "filter (\<lambda>x. \<not> is_index x) (map fst (put k v ps)) =
     filter (\<lambda>x. \<not> is_index x) (map fst ps) @ (if k \<in> fst ` set ps \<or> is_index k then [] else [k])"
  by (simp add: put_def keys_upd other_keys_ins_index)

subsection \<open>Filling an object key by key\<close>

lemma fold_res_put:
  "(\<And>k acc. k \<in> set ks \<Longrightarrow> f k acc = Inr (put k (g k) acc)) \<Longrightarrow>
   fold_res f ks acc = Inr (fold (\<lambda>k. put k (g k)) ks acc)"
  by (induction ks arbitrary: acc) (simp_all add: rbind_def)

lemma lookup_fold_put:
  "lookup (fold (\<lambda>k. put k (g k)) ks acc) k = (if k \<in> set ks then g k else lookup acc k)"
  by (induction ks arbitrary: acc) (auto simp: lookup_put)

lemma keys_fold_put: "fst ` set (fold (\<lambda>k. put k (g k)) ks acc) = set ks \<union> fst ` set acc"
  by (induction ks arbitrary: acc) (auto simp: keys_put)

lemma distinct_fold_put:
  "distinct (map fst acc) \<Longrightarrow> distinct (map fst (fold (\<lambda>k. put k (g k)) ks acc))"
  by (induction ks arbitrary: acc) (auto simp: distinct_keys_put)

lemma js_ordered_fold_put:
  "js_ordered (map fst acc) \<Longrightarrow> js_ordered (map fst (fold (\<lambda>k. put k (g k)) ks acc))"
  by (induction ks arbitrary: acc) (auto simp: js_ordered_put)

lemma other_keys_fold_put:
  "distinct ks \<Longrightarrow> set ks \<inter> fst ` set acc = {} \<Longrightarrow>
   filter (\<lambda>x. \<not> is_index x) (map fst (fold (\<lambda>k. put k (g k)) ks acc)) =
     filter (\<lambda>x. \<not> is_index x) (map fst acc) @ filter (\<lambda>x. \<not> is_index x) ks"
proof (induction ks arbitrary: acc)
  case Nil
  then show ?case by simp
next
  case (Cons k ks)
  have "set ks \<inter> fst ` set (put k (g k) acc) = {}"
    using Cons.prems by (auto simp: keys_put)
  with Cons show ?case
    by (auto simp: other_keys_put)
qed

lemma js_ordered_append_left: "js_ordered (xs @ ys) \<Longrightarrow> js_ordered xs"
  by (simp add: js_ordered_def sorted_wrt_append)

lemma fold_put_rebuild:
  "distinct ks \<Longrightarrow> set ks \<inter> fst ` set acc = {} \<Longrightarrow> js_ordered (map fst acc @ ks) \<Longrightarrow>
   fold (\<lambda>k. put k (g k)) ks acc = acc @ map (\<lambda>k. (k, g k)) ks"
proof (induction ks arbitrary: acc)
  case Nil
  then show ?case by simp
next
  case (Cons k ks)
  have ord: "js_ordered (map fst acc @ [k])"
    using Cons.prems(3) js_ordered_append_left [of "map fst acc @ [k]" ks] by simp
  have step: "put k (g k) acc = acc @ [(k, g k)]"
    using Cons.prems(2) ord by (intro put_last) auto
  have "fold (\<lambda>k. put k (g k)) ks (acc @ [(k, g k)]) = (acc @ [(k, g k)]) @ map (\<lambda>k. (k, g k)) ks"
    using Cons.prems by (intro Cons.IH) auto
  with step show ?case by simp
qed

subsection \<open>Evaluation on literals\<close>

lemma show_nat_0: "show_nat 0 = ''0''"
  by (subst show_nat.simps) (simp add: digit_char_def)

lemma show_nat_1: "show_nat 1 = ''1''"
  by (subst show_nat.simps) (simp add: digit_char_def)

lemma show_nat_Suc_0: "show_nat (Suc 0) = ''1''"
  by (subst show_nat.simps) (simp add: digit_char_def)

lemma show_nat_numeral:
  "show_nat (numeral n) =
     (if (numeral n :: nat) < 10 then [digit_char (numeral n)]
      else show_nat (numeral n div 10) @ [digit_char (numeral n mod 10)])"
  by (rule show_nat.simps)

lemmas name_simps =
  show_nat_0 show_nat_1 show_nat_Suc_0 show_nat_numeral digit_char_def digit_val_def dec_val_def
  is_index_def in_range_def

lemmas object_simps =
  rbind_def get_def nullish_def lookup_def put_def object_keys_def for_in_keys_def spread_def
  del_def or_empty_def or_default_def js_ordered_def wf_object_def

lemma typeof_undefined: "typeof v = TUndefined \<longleftrightarrow> v = JUndefined"
  by (cases v) simp_all


lemma get_object: "get (JObj ps) k = Inr (lookup ps k)"
  by (simp add: get_def nullish_def)

lemma object_keys_object: "object_keys (JObj ps) = Inr (map fst ps)"
  by (simp add: object_keys_def nullish_def)


subsection \<open>The sample environment\<close>

lemma sample_env_sel:
  "parse sample_env = ideal_parse" "rgb2yuv sample_env = ideal_rgb2yuv"
  "yuv2rgb sample_env = ideal_yuv2rgb" "rgb2hex sample_env = ideal_rgb2hex"
  "DEFAULT_BASE16 sample_env = sample_default"
  "base16 sample_env = [(''default'', JObj sample_default)]"
  "fnSource sample_env = (\<lambda>f. ''function () { [code] }'')"
  by (simp_all add: sample_env_def)












section \<open>Properties of the styling merger\<close>

text \<open>
  C8. \<^verbatim>\<open>undefined\<close> is a two-sided identity of the styling merge:
  \<^verbatim>\<open>mergeStyling(undefined, D)\<close> is \<open>D\<close> and \<^verbatim>\<open>mergeStyling(C, undefined)\<close> is \<open>C\<close>, for
  every value.
\<close>

theorem mergeStyling_undefined_identity:
  "mergeStyling JUndefined D = D \<and> mergeStyling C JUndefined = C"
  by (simp add: mergeStyling_def)

text \<open>
  C10. When both styling values are defined and at least one of them has a type other
  than string, object or function (a number, a boolean), no case of the dispatch
  returns: \<^verbatim>\<open>mergeStyling\<close> falls out of the \<^verbatim>\<open>switch\<close> and yields \<^verbatim>\<open>undefined\<close>.
\<close>

theorem mergeStyling_unknown_type:
  assumes "C \<noteq> JUndefined" and "D \<noteq> JUndefined"
    and "typeof C \<notin> {TString, TObject, TFunction} \<or> typeof D \<notin> {TString, TObject, TFunction}"
  shows "mergeStyling C D = JUndefined"
  using assms
  by (cases "typeof C"; cases "typeof D")
     (simp_all add: mergeStyling_def case_string_def case_object_def case_function_def
        typeof_undefined)

theorem mergeStyling_unknown_type_witness:
  "JNum 5 \<noteq> JUndefined \<and> JStr ''a'' \<noteq> JUndefined
   \<and> typeof (JNum 5) \<notin> {TString, TObject, TFunction}
   \<and> mergeStyling (JNum 5) (JStr ''a'') = JUndefined"
  using mergeStyling_unknown_type [of "JNum 5" "JStr ''a''"] by simp

section \<open>Properties of the key resolver\<close>

text \<open>
  C6. With \<^verbatim>\<open>keys === null\<close> the key resolver returns the merged map as it is. With a
  single key that is not an array (and not the \<^verbatim>\<open>null\<close> sentinel) it returns what it
  returns for the one-element array of that key, with the same extra arguments.
\<close>

theorem getStylingByKeys_null_and_single:
  "getStylingByKeys env mergedStyling JNull args = Inr mergedStyling \<and>
   (key \<noteq> JNull \<longrightarrow> (\<forall>ks. key \<noteq> JArr ks) \<longrightarrow>
      getStylingByKeys env mergedStyling key args =
      getStylingByKeys env mergedStyling (JArr [key]) args)"
  by (cases key) (simp_all add: getStylingByKeys_def)

theorem getStylingByKeys_null_and_single_witness:
  "JStr ''a'' \<noteq> JNull \<and> (\<forall>ks. JStr ''a'' \<noteq> JArr ks)
   \<and> getStylingByKeys sample_env (JObj [(''a'', JStr ''x'')]) (JStr ''a'') [] =
     getStylingByKeys sample_env (JObj [(''a'', JStr ''x'')]) (JArr [JStr ''a'']) []
   \<and> getStylingByKeys sample_env (JObj [(''a'', JStr ''x'')]) (JArr [JStr ''a'']) [] =
     Inr (JObj [(''className'', JStr ''x'')])"
  using getStylingByKeys_null_and_single [of sample_env "JObj [(''a'', JStr ''x'')]" "[]" "JStr ''a''"]
  by (simp add: getStylingByKeys_def style_step_def join_truthy_def object_simps)

section \<open>Properties of theme inversion\<close>













section \<open>Names, splitting and the result type\<close>

lemma show_nat_digits: "set (show_nat n) \<subseteq> set ''0123456789''"
proof (induction n rule: show_nat.induct)
  case (1 n)
  have d: "digit_char m \<in> set ''0123456789''" if "m < 10" for m
  proof -
    from that consider "m = 0" | "m = 1" | "m = 2" | "m = 3" | "m = 4" | "m = 5" | "m = 6"
      | "m = 7" | "m = 8" | "m = 9"
      by atomize_elim arith
    then show ?thesis
      by cases (simp_all add: digit_char_def)
  qed
  show ?case
  proof (cases "n < 10")
    case True
    then show ?thesis
      using d [of n] by (subst show_nat.simps) simp
  next
    case False
    then show ?thesis
      using 1 d [of "n mod 10"] by (subst show_nat.simps) simp
  qed
qed

lemma not_index_Cons: "c \<notin> set ''0123456789'' \<Longrightarrow> \<not> is_index (c # s)"
  using show_nat_digits [of "dec_val (c # s)"] by (auto simp: is_index_def)

lemma not_in_range_Cons: "c \<notin> set ''0123456789'' \<Longrightarrow> \<not> in_range (c # s) n"
  using show_nat_digits [of "dec_val (c # s)"] by (auto simp: in_range_def)




lemma rbind_Inr: "rbind (Inr x) f = f x"
  by (simp add: rbind_def)

lemma rbind_Inl: "rbind (Inl e) f = Inl e"
  by (simp add: rbind_def)

lemma get_extend_string: "get (JStr s) ''extend'' = Inr JUndefined"
  by (simp add: get_def nullish_def not_in_range_Cons)

section \<open>Properties of the styling map merger\<close>

lemma fold_push_new:
  "distinct xs \<Longrightarrow> fold push_new xs acc = acc @ filter (\<lambda>k. k \<notin> set acc) xs"
proof (induction xs arbitrary: acc)
  case Nil
  then show ?case by simp
next
  case (Cons x xs)
  then have "filter (\<lambda>k. k \<noteq> x \<and> k \<notin> set acc) xs = filter (\<lambda>k. k \<notin> set acc) xs"
    by (auto intro: filter_cong)
  with Cons show ?case
    by (simp add: push_new_def)
qed

lemma merge_keys_object:
  "distinct (map fst cs) \<Longrightarrow>
   merge_keys (JObj cs) (map fst ds) =
     map fst ds @ filter (\<lambda>k. k \<notin> fst ` set ds) (map fst cs)"
  by (simp add: merge_keys_def for_in_keys_def fold_push_new)

lemma show_nat_not_inherited: "show_nat n \<notin> set object_prototype_names"
  using show_nat_digits [of n] by (auto simp: object_prototype_names_def)

lemma read_prop_object:
  "k \<in> fst ` set ps \<or> k \<notin> set object_prototype_names \<Longrightarrow>
   read_prop env (JObj ps) k = lookup ps k"
  by (auto simp: read_prop_def inherited_prop_def lookup_notin)

lemma get_chain_object: "get_chain env (JObj ps) k = Inr (read_prop env (JObj ps) k)"
  by (simp add: get_chain_def nullish_def)

lemma mergeStylings_object:
  assumes "distinct (map fst cs)"
  shows "mergeStylings env (JObj cs) (JObj ds) =
     Inr (JObj (fold (\<lambda>k. put k (mergeStyling (read_prop env (JObj cs) k)
                                                 (read_prop env (JObj ds) k)))
                 (map fst ds @ filter (\<lambda>k. k \<notin> fst ` set ds) (map fst cs)) []))"
proof -
  have "fold_res (merge_entry env (JObj cs) (JObj ds)) ks [] =
      Inr (fold (\<lambda>k. put k (mergeStyling (read_prop env (JObj cs) k)
                                          (read_prop env (JObj ds) k))) ks [])" for ks
    by (rule fold_res_put) (simp add: merge_entry_def get_chain_object rbind_Inr)
  then show ?thesis
    using assms by (simp add: mergeStylings_def object_keys_object rbind_Inr merge_keys_object)
qed

lemma sample_inherited_constructor:
  "read_prop sample_env (JObj []) ''constructor'' = JPrim 0"
  by (simp add: read_prop_def inherited_prop_def sample_env_def object_prototype_names_def)

text \<open>
  The merged object lists an array index before every other name, also when the index
  comes from the custom map only and the other name from the default map.
\<close>

theorem mergeStylings_order_counterexample:
  "mergeStylings sample_env (JObj [(''0'', JStr ''y'')]) (JObj [(''a'', JStr ''x'')]) =
     Inr (JObj [(''0'', JStr ''y''), (''a'', JStr ''x'')])"
  by (simp add: mergeStylings_object read_prop_object show_nat_not_inherited [of 0, simplified show_nat_0]
      object_prototype_names_def lookup_Cons lookup_Nil mergeStyling_def put_def
      not_index_Cons name_simps)

text \<open>
  A key that one map lacks and \<^verbatim>\<open>Object.prototype\<close> defines is merged with the
  inherited function, not with \<^verbatim>\<open>undefined\<close>: for \<^verbatim>\<open>mergeStylings({}, {constructor: 'x'})\<close>
  the merged value is the function that \<^verbatim>\<open>mergeStyling\<close> builds from the inherited
  \<^verbatim>\<open>constructor\<close> and the class name \<^verbatim>\<open>'x'\<close>, where \<^verbatim>\<open>mergeStyling(undefined, 'x')\<close>
  is \<^verbatim>\<open>'x'\<close>.
\<close>

lemma mergeStylings_inherited_name:
  "mergeStylings sample_env (JObj []) (JObj [(''constructor'', JStr ''x'')]) =
     Inr (JObj [(''constructor'', JFnOverLit (JPrim 0) (JObj [(''className'', JStr ''x'')]))])
   \<and> mergeStyling JUndefined (JStr ''x'') = JStr ''x''"
  by (simp add: mergeStylings_object sample_inherited_constructor read_prop_object
      lookup_Cons mergeStyling_def put_def case_function_def not_index_Cons)

text \<open>
  C5, as amended. For every pair of styling maps with no own property named
  \<^verbatim>\<open>__proto__\<close>, the key set of the merged map is the union of the key sets, and for
  every key of the merged map the merged value is \<^verbatim>\<open>mergeStyling\<close> of what line 97 reads
  in the two maps under that key. For a key that each map either has or does not
  inherit from \<^verbatim>\<open>Object.prototype\<close> these are the two maps' values at that key, a
  missing entry being \<^verbatim>\<open>undefined\<close>. The keys are written in the order default keys
  first, custom-only keys after them; the merged object lists them in property order,
  that is with its array-index keys first and ascending and its other keys in the order
  written. The listed order is the written order whenever the written order is a
  property order.
\<close>

theorem mergeStylings_keys_and_values:
  assumes wfc: "wf_object cs" and wfd: "wf_object ds"
    and npc: "''__proto__'' \<notin> fst ` set cs" and npd: "''__proto__'' \<notin> fst ` set ds"
  shows "\<exists>m. mergeStylings env (JObj cs) (JObj ds) = Inr (JObj m) \<and> wf_object m
         \<and> set (map fst m) = set (map fst ds) \<union> set (map fst cs)
         \<and> (\<forall>K. K \<in> fst ` set m \<longrightarrow>
                lookup m K = mergeStyling (read_prop env (JObj cs) K) (read_prop env (JObj ds) K))
         \<and> (\<forall>K. (K \<in> fst ` set cs \<or> K \<notin> set object_prototype_names) \<longrightarrow>
                (K \<in> fst ` set ds \<or> K \<notin> set object_prototype_names) \<longrightarrow>
                lookup m K = mergeStyling (lookup cs K) (lookup ds K))
         \<and> filter (\<lambda>k. \<not> is_index k) (map fst m) =
             filter (\<lambda>k. \<not> is_index k)
               (map fst ds @ filter (\<lambda>k. k \<notin> fst ` set ds) (map fst cs))
         \<and> (js_ordered (map fst ds @ filter (\<lambda>k. k \<notin> fst ` set ds) (map fst cs)) \<longrightarrow>
              map fst m = map fst ds @ filter (\<lambda>k. k \<notin> fst ` set ds) (map fst cs))"
proof -
  define ks where "ks = map fst ds @ filter (\<lambda>k. k \<notin> fst ` set ds) (map fst cs)"
  define g where "g k = mergeStyling (read_prop env (JObj cs) k) (read_prop env (JObj ds) k)" for k
  define m where "m = fold (\<lambda>k. put k (g k)) ks []"
  have dc: "distinct (map fst cs)" and dd: "distinct (map fst ds)"
    using wfc wfd by (simp_all add: wf_object_def)
  have dks: "distinct ks"
    using dc dd by (auto simp: ks_def)
  have sks: "set ks = set (map fst ds) \<union> set (map fst cs)"
    by (auto simp: ks_def)
  have run: "mergeStylings env (JObj cs) (JObj ds) = Inr (JObj m)"
    using mergeStylings_object [OF dc, of env ds] by (simp add: m_def g_def ks_def)
  have "js_ordered (map fst ([] :: props))"
    by (simp add: js_ordered_def)
  then have wf: "wf_object m"
    unfolding wf_object_def m_def
    by (simp add: distinct_fold_put js_ordered_fold_put)
  have keys: "set (map fst m) = set (map fst ds) \<union> set (map fst cs)"
    using keys_fold_put [of g ks "[]"] sks by (simp add: m_def)
  have reads: "lookup m K = mergeStyling (read_prop env (JObj cs) K) (read_prop env (JObj ds) K)"
    if "K \<in> fst ` set m" for K
  proof -
    from that keys have "K \<in> set ks"
      using sks by simp
    then show ?thesis
      by (simp add: m_def lookup_fold_put g_def)
  qed
  have vals: "lookup m K = mergeStyling (lookup cs K) (lookup ds K)"
    if c: "K \<in> fst ` set cs \<or> K \<notin> set object_prototype_names"
      and d: "K \<in> fst ` set ds \<or> K \<notin> set object_prototype_names" for K
  proof (cases "K \<in> set ks")
    case True
    then show ?thesis
      by (simp add: m_def lookup_fold_put g_def read_prop_object [OF c] read_prop_object [OF d])
  next
    case False
    then have "lookup cs K = JUndefined" "lookup ds K = JUndefined"
      using sks by (simp_all add: lookup_notin)
    with False show ?thesis
      by (simp add: m_def lookup_fold_put lookup_Nil mergeStyling_def)
  qed
  have others: "filter (\<lambda>k. \<not> is_index k) (map fst m) = filter (\<lambda>k. \<not> is_index k) ks"
    using other_keys_fold_put [OF dks, of "[]" g] by (simp add: m_def)
  have same: "map fst m = ks" if "js_ordered ks"
    using fold_put_rebuild [OF dks, of "[]" g] that by (simp add: m_def comp_def)
  show ?thesis
    using run wf keys reads vals others same unfolding ks_def by blast
qed

theorem mergeStylings_keys_and_values_witness:
  "wf_object [(''b'', JStr ''z''), (''c'', JStr ''q'')]
   \<and> wf_object [(''a'', JStr ''x''), (''b'', JStr ''w'')]
   \<and> ''__proto__'' \<notin> fst ` set [(''b'', JStr ''z''), (''c'', JStr ''q'')]
   \<and> ''__proto__'' \<notin> fst ` set [(''a'', JStr ''x''), (''b'', JStr ''w'')]
   \<and> js_ordered [''a'', ''b'', ''c'']
   \<and> (\<exists>m. mergeStylings sample_env (JObj [(''b'', JStr ''z''), (''c'', JStr ''q'')])
               (JObj [(''a'', JStr ''x''), (''b'', JStr ''w'')]) = Inr (JObj m)
          \<and> map fst m = [''a'', ''b'', ''c'']
          \<and> lookup m ''a'' = JStr ''x''
          \<and> lookup m ''b'' = JStr ''w z''
          \<and> lookup m ''c'' = JStr ''q'')"
proof -
  let ?cs = "[(''b'', JStr ''z''), (''c'', JStr ''q'')]"
  let ?ds = "[(''a'', JStr ''x''), (''b'', JStr ''w'')]"
  have wfc: "wf_object ?cs" and wfd: "wf_object ?ds"
    by (simp_all add: wf_object_def js_ordered_def not_index_Cons)
  have npc: "''__proto__'' \<notin> fst ` set ?cs" and npd: "''__proto__'' \<notin> fst ` set ?ds"
    by simp_all
  have ord: "js_ordered [''a'', ''b'', ''c'']"
    by (simp add: js_ordered_def not_index_Cons)
  obtain m where run: "mergeStylings sample_env (JObj ?cs) (JObj ?ds) = Inr (JObj m)"
    and vals: "\<forall>K. (K \<in> fst ` set ?cs \<or> K \<notin> set object_prototype_names) \<longrightarrow>
                (K \<in> fst ` set ?ds \<or> K \<notin> set object_prototype_names) \<longrightarrow>
                lookup m K = mergeStyling (lookup ?cs K) (lookup ?ds K)"
    and same: "js_ordered (map fst ?ds @ filter (\<lambda>k. k \<notin> fst ` set ?ds) (map fst ?cs)) \<longrightarrow>
               map fst m = map fst ?ds @ filter (\<lambda>k. k \<notin> fst ` set ?ds) (map fst ?cs)"
    using mergeStylings_keys_and_values [OF wfc wfd npc npd, of sample_env] by blast
  from same ord have keys: "map fst m = [''a'', ''b'', ''c'']"
    by simp
  from vals [rule_format, of "''a''"] have a: "lookup m ''a'' = JStr ''x''"
    by (simp add: object_prototype_names_def lookup_Cons lookup_Nil mergeStyling_def)
  from vals [rule_format, of "''b''"] have b: "lookup m ''b'' = JStr ''w z''"
    by (simp add: lookup_Cons mergeStyling_def case_string_def)
  from vals [rule_format, of "''c''"] have c: "lookup m ''c'' = JStr ''q''"
    by (simp add: object_prototype_names_def lookup_Cons lookup_Nil mergeStyling_def)
  have res: "\<exists>m. mergeStylings sample_env (JObj ?cs) (JObj ?ds) = Inr (JObj m)
      \<and> map fst m = [''a'', ''b'', ''c''] \<and> lookup m ''a'' = JStr ''x''
      \<and> lookup m ''b'' = JStr ''w z'' \<and> lookup m ''c'' = JStr ''q''"
    by (rule exI [where x = m]) (rule conjI [OF run conjI [OF keys conjI [OF a conjI [OF b c]]]])
  show ?thesis
    by (rule conjI [OF wfc conjI [OF wfd conjI [OF npc conjI [OF npd conjI [OF ord res]]]]])
qed

section \<open>Properties of the entry point\<close>

subsection \<open>The steps of \<^verbatim>\<open>createStyling\<close> on objects\<close>

lemma build_theme_run:
  assumes "\<not> nullish input" and "\<not> nullish defaultBase16"
  shows "build_theme env input defaultBase16 =
     Inr (fold (\<lambda>k. put k (if truthy (own_prop input k) then own_prop input k
                            else own_prop defaultBase16 k)) (BASE16_KEYS env) [])"
  unfolding build_theme_def
  by (rule fold_res_put) (use assms in \<open>simp add: theme_entry_def get_def rbind_Inr\<close>)

lemma fold_res_put_filter:
  "(\<And>k acc. f k acc = (if P k then Inr (put k (g k) acc) else Inr acc)) \<Longrightarrow>
   fold_res f ks acc = Inr (fold (\<lambda>k. put k (g k)) (filter P ks) acc)"
  by (induction ks arbitrary: acc) (simp_all add: rbind_Inr)

lemma build_customStyling_run:
  "build_customStyling env (JObj ps) =
     Inr (fold (\<lambda>k. put k (lookup ps k))
            (filter (\<lambda>k. k \<notin> set (BASE16_KEYS env)) (map fst ps)) [])"
  unfolding build_customStyling_def object_keys_object rbind_Inr
  by (rule fold_res_put_filter) (simp add: custom_entry_def get_object rbind_Inr)

lemma deriveDefaults_run:
  "deriveDefaults (JObj t) =
     Inr (JObj (fold (\<lambda>k. put k (JObj [(''style'', JObj [(''color'', lookup t k)])]))
                 (map fst t) []))"
proof -
  have "fold_res (color_entry (JObj t)) (map fst t) [] =
      Inr (fold (\<lambda>k. put k (JObj [(''style'', JObj [(''color'', lookup t k)])])) (map fst t) [])"
    by (rule fold_res_put) (simp add: color_entry_def get_object rbind_Inr)
  then show ?thesis
    by (simp add: deriveDefaults_def object_keys_object rbind_Inr)
qed

lemmas run_simps =
  rbind_Inr rbind_Inl get_object object_keys_object lookup_Cons lookup_Nil put_def
  not_index_Cons not_in_range_Cons sample_env_sel BASE16_KEYS_def or_default_def

lemma read_options_sample:
  "read_options sample_env (JObj [(''defaultBase16'', JObj [(''base00'', JStr ''#111111'')])]) =
     Inr (JObj [(''base00'', JStr ''#111111'')], JNull)"
  by (simp add: read_options_def run_simps)

lemma read_options_default: "read_options sample_env (JObj []) = Inr (JObj sample_default, JNull)"
  by (simp add: read_options_def run_simps)

lemma getBase16Theme_no_theme:
  "\<not> hasOwnProperty (JObj ps) ''base00'' \<Longrightarrow> lookup ps ''extend'' = JUndefined \<Longrightarrow>
   getBase16Theme env (JObj ps) base16Themes = Inr JUndefined"
  by (simp add: getBase16Theme_def rbind_Inr get_object)

lemma effective_input_no_theme:
  "\<not> hasOwnProperty (JObj ps) ''base00'' \<Longrightarrow> lookup ps ''extend'' = JUndefined \<Longrightarrow>
   effective_input env (JObj ps) base16Themes = Inr (JObj ps)"
  by (simp add: effective_input_def getBase16Theme_no_theme rbind_Inr)

lemma build_customStyling_empty: "build_customStyling env (JObj []) = Inr []"
  by (simp add: build_customStyling_def object_keys_object rbind_Inr)

lemma build_theme_sample:
  "build_theme sample_env (JObj []) (JObj [(''base00'', JStr ''#111111'')]) =
     Inr [(''base00'', JStr ''#111111''), (''base01'', JUndefined), (''base02'', JUndefined),
          (''base03'', JUndefined), (''base04'', JUndefined), (''base05'', JUndefined),
          (''base06'', JUndefined), (''base07'', JUndefined), (''base08'', JUndefined),
          (''base09'', JUndefined), (''base0A'', JUndefined), (''base0B'', JUndefined),
          (''base0C'', JUndefined), (''base0D'', JUndefined), (''base0E'', JUndefined),
          (''base0F'', JUndefined)]"
  by (simp add: build_theme_def theme_entry_def sample_default_def run_simps)

lemma mergeStylings_empty_custom:
  assumes "set (map fst ds) \<inter> set object_prototype_names = {}"
  shows "mergeStylings env (JObj []) (JObj ds) =
     Inr (JObj (fold (\<lambda>k. put k (lookup ds k)) (map fst ds) []))"
proof -
  have "fold (\<lambda>k. put k (mergeStyling (read_prop env (JObj []) k) (read_prop env (JObj ds) k))) ks acc =
      fold (\<lambda>k. put k (lookup ds k)) ks acc"
    if "set ks \<subseteq> set (map fst ds)" for ks acc
    using that assms
  proof (induction ks arbitrary: acc)
    case Nil
    then show ?case
      by simp
  next
    case (Cons k ks)
    then have "k \<notin> set object_prototype_names"
      by auto
    then have "read_prop env (JObj []) k = JUndefined" "read_prop env (JObj ds) k = lookup ds k"
      by (simp_all add: read_prop_object lookup_Nil)
    with Cons show ?case
      by (simp add: mergeStyling_def)
  qed
  then show ?thesis
    by (simp add: mergeStylings_object)
qed

text \<open>
  The library's built-in default is not consulted key by key. When the caller's
  \<^verbatim>\<open>defaultBase16\<close> has \<^verbatim>\<open>base00\<close> only and the input has no colour, every other colour
  of the theme is \<^verbatim>\<open>undefined\<close>, although the built-in table has a value for it. The
  callback is the identity, so that the merged map, returned for \<^verbatim>\<open>keys === null\<close>, is
  the theme.
\<close>

theorem theme_fallback_counterexample:
  "styling_for sample_env Inr
     (JObj [(''defaultBase16'', JObj [(''base00'', JStr ''#111111'')])]) (JObj []) JNull =
   Inr (JObj
     [(''base00'', JStr ''#111111''), (''base01'', JUndefined), (''base02'', JUndefined),
      (''base03'', JUndefined), (''base04'', JUndefined), (''base05'', JUndefined),
      (''base06'', JUndefined), (''base07'', JUndefined), (''base08'', JUndefined),
      (''base09'', JUndefined), (''base0A'', JUndefined), (''base0B'', JUndefined),
      (''base0C'', JUndefined), (''base0D'', JUndefined), (''base0E'', JUndefined),
      (''base0F'', JUndefined)])
   \<and> lookup (DEFAULT_BASE16 sample_env) ''base01'' = JStr ''#282828''"
  by (simp add: styling_for_def createStyling_def read_options_sample effective_input_no_theme
      build_theme_sample build_customStyling_empty mergeStylings_empty_custom
      object_prototype_names_def curry_getStylingByKeys_def resolve_def getStylingByKeys_def sample_default_def run_simps)

text \<open>
  C3, as amended. For each reserved colour key the value of the theme is the
  effective input's value if that is truthy, else the value of \<^verbatim>\<open>defaultBase16\<close> for
  that key: a two-tier choice per key. \<^verbatim>\<open>defaultBase16\<close> is \<^verbatim>\<open>options.defaultBase16\<close> when
  the caller supplies it and the library's built-in table otherwise, chosen once for the
  whole table.
\<close>

theorem build_theme_fallback:
  assumes opts: "read_options env options = Inr (defaultBase16, base16Themes)"
    and input: "\<not> nullish input"
    and dflt: "\<not> nullish defaultBase16"
  shows "\<exists>theme. build_theme env input defaultBase16 = Inr theme
           \<and> fst ` set theme = set (BASE16_KEYS env)
           \<and> (\<forall>key \<in> set (BASE16_KEYS env).
                 lookup theme key =
                   (if truthy (own_prop input key) then own_prop input key
                    else own_prop defaultBase16 key))
           \<and> defaultBase16 =
                 (if own_prop options ''defaultBase16'' = JUndefined
                  then JObj (DEFAULT_BASE16 env) else own_prop options ''defaultBase16'')"
proof -
  have run: "build_theme env input defaultBase16 =
      Inr (fold (\<lambda>k. put k (if truthy (own_prop input k) then own_prop input k
                             else own_prop defaultBase16 k)) (BASE16_KEYS env) [])"
    using input dflt by (rule build_theme_run)
  have d: "defaultBase16 =
      (if own_prop options ''defaultBase16'' = JUndefined
       then JObj (DEFAULT_BASE16 env) else own_prop options ''defaultBase16'')"
    using opts
    by (cases "nullish options")
       (simp_all add: read_options_def get_def rbind_Inr rbind_Inl or_default_def)
  show ?thesis
    using run d by (simp add: keys_fold_put lookup_fold_put)
qed

theorem build_theme_fallback_witness:
  "read_options sample_env (JObj [(''defaultBase16'', JObj [(''base00'', JStr ''#111111'')])]) =
     Inr (JObj [(''base00'', JStr ''#111111'')], JNull)
   \<and> \<not> nullish (JObj [(''base01'', JStr ''#222222'')])
   \<and> \<not> nullish (JObj [(''base00'', JStr ''#111111'')])
   \<and> (\<exists>theme. build_theme sample_env (JObj [(''base01'', JStr ''#222222'')])
                 (JObj [(''base00'', JStr ''#111111'')]) = Inr theme
          \<and> lookup theme ''base00'' = JStr ''#111111''
          \<and> lookup theme ''base01'' = JStr ''#222222''
          \<and> lookup theme ''base02'' = JUndefined)"
proof -
  let ?input = "JObj [(''base01'', JStr ''#222222'')]"
  let ?dflt = "JObj [(''base00'', JStr ''#111111'')]"
  have n1: "\<not> nullish ?input" and n2: "\<not> nullish ?dflt"
    by (simp_all add: nullish_def)
  obtain theme where run: "build_theme sample_env ?input ?dflt = Inr theme"
    and vals: "\<forall>key \<in> set (BASE16_KEYS sample_env).
                 lookup theme key =
                   (if truthy (own_prop ?input key) then own_prop ?input key
                    else own_prop ?dflt key)"
    using build_theme_fallback [OF read_options_sample n1 n2] by blast
  have k: "''base00'' \<in> set (BASE16_KEYS sample_env)" "''base01'' \<in> set (BASE16_KEYS sample_env)"
    "''base02'' \<in> set (BASE16_KEYS sample_env)"
    by (simp_all add: BASE16_KEYS_def sample_env_sel sample_default_def)
  have v: "lookup theme ''base00'' = JStr ''#111111''" "lookup theme ''base01'' = JStr ''#222222''"
    "lookup theme ''base02'' = JUndefined"
    using vals k by (simp_all add: lookup_Cons lookup_Nil)
  have res: "\<exists>theme. build_theme sample_env ?input ?dflt = Inr theme
      \<and> lookup theme ''base00'' = JStr ''#111111''
      \<and> lookup theme ''base01'' = JStr ''#222222''
      \<and> lookup theme ''base02'' = JUndefined"
    by (rule exI [where x = theme]) (rule conjI [OF run conjI [OF v(1) conjI [OF v(2) v(3)]]])
  show ?thesis
    by (rule conjI [OF read_options_sample conjI [OF n1 conjI [OF n2 res]]])
qed

subsection \<open>The end-to-end scenario\<close>

lemma getBase16Theme_extend:
  "getBase16Theme sample_env
     (JObj [(''extend'', JObj scenario_theme), (''base0D'', scenario_override)]) JNull =
   Inr (JObj scenario_theme)"
  by (simp add: getBase16Theme_def scenario_theme_def run_simps)

lemma effective_input_extend:
  "effective_input sample_env
     (JObj [(''extend'', JObj scenario_theme), (''base0D'', scenario_override)]) JNull =
   Inr (JObj (put ''extend'' (JObj scenario_theme)
               (put ''base0D'' scenario_override scenario_theme)))"
  unfolding effective_input_def getBase16Theme_extend rbind_Inr
  by (simp add: spread_def scenario_theme_def put_def not_index_Cons)

lemma effective_input_direct:
  "effective_input sample_env (JObj (put ''base0D'' scenario_override scenario_theme)) JNull =
   Inr (JObj (put ''base0D'' scenario_override scenario_theme))"
  by (simp add: effective_input_def getBase16Theme_def spread_def scenario_theme_def
      scenario_override_def run_simps)

lemma effective_input_override:
  "effective_input sample_env (JObj [(''base0D'', scenario_override)]) JNull =
   Inr (JObj [(''base0D'', scenario_override)])"
  by (simp add: effective_input_no_theme lookup_Cons lookup_Nil)

lemma read_options_scenario:
  "read_options sample_env (JObj [(''defaultBase16'', JObj scenario_theme)]) =
     Inr (JObj scenario_theme, JNull)"
  by (simp add: read_options_def run_simps)

text \<open>What the key resolver returns for one key whose styling is an object.\<close>

lemma getStylingByKeys_object_styling:
  assumes "lookup m k = JObj ((a, v) # ps)"
  shows "getStylingByKeys env (JObj m) (JStr k) [] =
     Inr (JObj [(''style'', JObj (spread [] (JObj ((a, v) # ps))))])"
proof -
  have ne: "put a v [] \<noteq> []"
    by (simp add: put_def)
  have "fold (\<lambda>p. put (fst p) (snd p)) ps (put a v []) \<noteq> []"
    using ne
  proof (induction ps arbitrary: a v rule: rev_induct)
    case Nil
    then show ?case by simp
  next
    case (snoc p ps)
    have "put k' v' xs \<noteq> []" for k' v' xs
      by (cases xs) (auto simp: put_def split: if_splits)
    then show ?case by simp
  qed
  then have "spread [] (JObj ((a, v) # ps)) \<noteq> []"
    by (simp add: spread_def)
  moreover have "spread [] (JObj []) = []"
    by (simp add: spread_def)
  ultimately show ?thesis
    using assms
    by (simp add: getStylingByKeys_def style_step_def get_object rbind_Inr lookup_Cons lookup_Nil
        put_def del_def object_keys_object not_index_Cons Let_def)
qed

text \<open>
  With the \<^verbatim>\<open>deriveDefaults\<close> of the scenario, the styling of a reserved colour key is
  derived from whatever the effective input holds under that key, and the custom map
  has no entry for it.
\<close>

lemma styling_for_reserved_key:
  assumes opts: "read_options env (or_default options (JObj [])) = Inr (d, b)"
    and dflt: "\<not> nullish d"
    and input: "effective_input env (or_default themeOrStyling (JObj [])) b = Inr (JObj E)"
    and key: "key \<in> set (BASE16_KEYS env)"
    and own: "key \<notin> set object_prototype_names"
  shows "styling_for env deriveDefaults options themeOrStyling (JStr key) =
     Inr (JObj [(''style'', JObj [(''style'', JObj [(''color'',
       if truthy (lookup E key) then lookup E key else own_prop d key)])])])"
proof -
  define theme where "theme = fold (\<lambda>k. put k (if truthy (own_prop (JObj E) k)
      then own_prop (JObj E) k else own_prop d k)) (BASE16_KEYS env) []"
  define custom where "custom = fold (\<lambda>k. put k (lookup E k))
      (filter (\<lambda>k. k \<notin> set (BASE16_KEYS env)) (map fst E)) []"
  define dflts where "dflts = fold (\<lambda>k. put k (JObj [(''style'', JObj [(''color'', lookup theme k)])]))
      (map fst theme) []"
  define merged where "merged = fold (\<lambda>k. put k (mergeStyling (read_prop env (JObj custom) k)
                                                             (read_prop env (JObj dflts) k)))
      (map fst dflts @ filter (\<lambda>k. k \<notin> fst ` set dflts) (map fst custom)) []"
  have t: "build_theme env (JObj E) d = Inr theme"
    unfolding theme_def using dflt by (intro build_theme_run) (simp add: nullish_def)
  have c: "build_customStyling env (JObj E) = Inr custom"
    unfolding custom_def by (rule build_customStyling_run)
  have dd: "deriveDefaults (JObj theme) = Inr (JObj dflts)"
    unfolding dflts_def by (rule deriveDefaults_run)
  have "distinct (map fst custom)"
    unfolding custom_def by (simp add: distinct_fold_put)
  then have m: "mergeStylings env (JObj custom) (JObj dflts) = Inr (JObj merged)"
    unfolding merged_def by (rule mergeStylings_object)
  have tk: "key \<in> fst ` set theme"
    using key by (simp add: theme_def keys_fold_put)
  have lt: "lookup theme key = (if truthy (lookup E key) then lookup E key else own_prop d key)"
    using key by (simp add: theme_def lookup_fold_put)
  have dk: "key \<in> fst ` set dflts"
    using tk by (simp add: dflts_def keys_fold_put)
  have ld: "lookup dflts key = JObj [(''style'', JObj [(''color'', lookup theme key)])]"
    using tk by (simp add: dflts_def lookup_fold_put)
  have lc: "lookup custom key = JUndefined"
    using key by (simp add: custom_def lookup_fold_put lookup_Nil)
  have lm: "lookup merged key = JObj [(''style'', JObj [(''color'', lookup theme key)])]"
    using dk own by (simp add: merged_def lookup_fold_put read_prop_object lc ld mergeStyling_def)
  have "getStylingByKeys env (JObj merged) (JStr key) [] =
      Inr (JObj [(''style'', JObj [(''style'', JObj [(''color'', lookup theme key)])])])"
    using getStylingByKeys_object_styling [OF lm, of env]
    by (simp add: spread_def put_def not_index_Cons)
  then show ?thesis
    by (simp add: styling_for_def createStyling_def Let_def opts input t c dd m rbind_Inr
        curry_getStylingByKeys_def resolve_def lt)
qed

lemma scenario_override_truthy: "truthy scenario_override"
  by (simp add: scenario_override_def)

lemma base0D_reserved: "''base0D'' \<in> set (BASE16_KEYS sample_env)"
  by (simp add: BASE16_KEYS_def sample_env_sel sample_default_def)

lemma base0D_own: "''base0D'' \<notin> set object_prototype_names"
  by (simp add: object_prototype_names_def)

lemma scenario_extend:
  "styling_for sample_env deriveDefaults JUndefined
     (JObj [(''extend'', JObj scenario_theme), (''base0D'', scenario_override)]) (JStr ''base0D'') =
   Inr (JObj [(''style'', JObj [(''style'', JObj [(''color'', scenario_override)])])])"
proof -
  have n: "\<not> nullish (JObj sample_default)"
    by (simp add: nullish_def)
  have o: "read_options sample_env (or_default JUndefined (JObj [])) = Inr (JObj sample_default, JNull)"
    by (simp add: or_default_def read_options_default)
  have i: "effective_input sample_env
      (or_default (JObj [(''extend'', JObj scenario_theme), (''base0D'', scenario_override)])
         (JObj [])) JNull =
      Inr (JObj (put ''extend'' (JObj scenario_theme)
                  (put ''base0D'' scenario_override scenario_theme)))"
    by (simp add: or_default_def effective_input_extend)
  show ?thesis
    using styling_for_reserved_key [OF o n i base0D_reserved base0D_own]
    by (simp add: lookup_put scenario_override_truthy)
qed

lemma scenario_direct:
  "styling_for sample_env deriveDefaults JUndefined
     (JObj (put ''base0D'' scenario_override scenario_theme)) (JStr ''base0D'') =
   Inr (JObj [(''style'', JObj [(''style'', JObj [(''color'', scenario_override)])])])"
proof -
  have n: "\<not> nullish (JObj sample_default)"
    by (simp add: nullish_def)
  have o: "read_options sample_env (or_default JUndefined (JObj [])) = Inr (JObj sample_default, JNull)"
    by (simp add: or_default_def read_options_default)
  have i: "effective_input sample_env
      (or_default (JObj (put ''base0D'' scenario_override scenario_theme)) (JObj [])) JNull =
      Inr (JObj (put ''base0D'' scenario_override scenario_theme))"
    by (simp add: or_default_def effective_input_direct)
  show ?thesis
    using styling_for_reserved_key [OF o n i base0D_reserved base0D_own]
    by (simp add: lookup_put scenario_override_truthy)
qed

lemma scenario_options:
  "styling_for sample_env deriveDefaults (JObj [(''defaultBase16'', JObj scenario_theme)])
     (JObj [(''base0D'', scenario_override)]) (JStr ''base0D'') =
   Inr (JObj [(''style'', JObj [(''style'', JObj [(''color'', scenario_override)])])])"
proof -
  have n: "\<not> nullish (JObj scenario_theme)"
    by (simp add: nullish_def)
  have o: "read_options sample_env (or_default (JObj [(''defaultBase16'', JObj scenario_theme)])
      (JObj [])) = Inr (JObj scenario_theme, JNull)"
    by (simp add: or_default_def read_options_scenario)
  have i: "effective_input sample_env
      (or_default (JObj [(''base0D'', scenario_override)]) (JObj [])) JNull =
      Inr (JObj [(''base0D'', scenario_override)])"
    by (simp add: or_default_def effective_input_override)
  show ?thesis
    using styling_for_reserved_key [OF o n i base0D_reserved base0D_own]
    by (simp add: lookup_Cons scenario_override_truthy)
qed

text \<open>
  The scenario does not yield \<^verbatim>\<open>{style: {color: '#ff0000', fontWeight: 'bold'}}\<close>,
  whichever way the theme and the override reach \<^verbatim>\<open>createStyling\<close>: the theme under
  \<^verbatim>\<open>extend\<close> and the override beside it, the override written over the theme's own
  \<^verbatim>\<open>base0D\<close>, or the theme as \<^verbatim>\<open>options.defaultBase16\<close>.
\<close>

theorem scenario_counterexample:
  "styling_for sample_env deriveDefaults JUndefined
     (JObj [(''extend'', JObj scenario_theme), (''base0D'', scenario_override)]) (JStr ''base0D'')
     \<noteq> Inr scenario_expected
   \<and> styling_for sample_env deriveDefaults JUndefined
     (JObj (put ''base0D'' scenario_override scenario_theme)) (JStr ''base0D'')
     \<noteq> Inr scenario_expected
   \<and> styling_for sample_env deriveDefaults (JObj [(''defaultBase16'', JObj scenario_theme)])
     (JObj [(''base0D'', scenario_override)]) (JStr ''base0D'')
     \<noteq> Inr scenario_expected"
  by (simp add: scenario_extend scenario_direct scenario_options scenario_expected_def)

text \<open>
  C4, as amended. In the scenario, resolving \<^verbatim>\<open>base0D\<close> yields
  \<^verbatim>\<open>{style: {style: {color: {style: {fontWeight: 'bold'}}}}}\<close>. \<^verbatim>\<open>base0D\<close> is a reserved
  colour key: the override takes the place of the theme's colour and does not enter the
  custom styling map, \<^verbatim>\<open>deriveDefaults\<close> wraps it as the colour, and the key resolver
  merges the derived object styling as a whole into \<^verbatim>\<open>style\<close>.
\<close>

theorem scenario_result:
  "styling_for sample_env deriveDefaults JUndefined
     (JObj [(''extend'', JObj scenario_theme), (''base0D'', scenario_override)]) (JStr ''base0D'') =
   Inr (JObj [(''style'', JObj [(''style'', JObj [(''color'', scenario_override)])])])
   \<and> styling_for sample_env deriveDefaults JUndefined
     (JObj (put ''base0D'' scenario_override scenario_theme)) (JStr ''base0D'') =
   Inr (JObj [(''style'', JObj [(''style'', JObj [(''color'', scenario_override)])])])
   \<and> styling_for sample_env deriveDefaults (JObj [(''defaultBase16'', JObj scenario_theme)])
     (JObj [(''base0D'', scenario_override)]) (JStr ''base0D'') =
   Inr (JObj [(''style'', JObj [(''style'', JObj [(''color'', scenario_override)])])])"
  by (rule conjI [OF scenario_extend conjI [OF scenario_direct scenario_options]])

subsection \<open>A string as the theme argument\<close>

lemma spread_string:
  "spread acc (JStr s) =
     fold (\<lambda>k. put k (JStr [s ! dec_val k])) (map show_nat [0..<length s]) acc"
  by (simp add: spread_def fold_map comp_def dec_val_show_nat)

lemma mergeStylings_lookup:
  assumes "distinct (map fst cs)"
  shows "\<exists>m. mergeStylings env (JObj cs) (JObj ds) = Inr (JObj m)
           \<and> fst ` set m = fst ` set ds \<union> fst ` set cs
           \<and> (\<forall>K. K \<notin> set object_prototype_names \<longrightarrow>
                  lookup m K = mergeStyling (lookup cs K) (lookup ds K))"
proof -
  define ks where "ks = map fst ds @ filter (\<lambda>k. k \<notin> fst ` set ds) (map fst cs)"
  define m where "m = fold (\<lambda>k. put k (mergeStyling (read_prop env (JObj cs) k)
                                                       (read_prop env (JObj ds) k))) ks []"
  have sks: "set ks = fst ` set ds \<union> fst ` set cs"
    by (auto simp: ks_def)
  have run: "mergeStylings env (JObj cs) (JObj ds) = Inr (JObj m)"
    using mergeStylings_object [OF assms, of env ds] by (simp add: m_def ks_def)
  have keys: "fst ` set m = fst ` set ds \<union> fst ` set cs"
    using sks by (simp add: m_def keys_fold_put)
  have vals: "lookup m K = mergeStyling (lookup cs K) (lookup ds K)"
    if "K \<notin> set object_prototype_names" for K
  proof (cases "K \<in> set ks")
    case True
    then show ?thesis
      using that by (simp add: m_def lookup_fold_put read_prop_object)
  next
    case False
    then have "lookup cs K = JUndefined" "lookup ds K = JUndefined"
      using sks by (simp_all add: lookup_notin)
    with False show ?thesis
      by (simp add: m_def lookup_fold_put lookup_Nil mergeStyling_def)
  qed
  from run keys vals show ?thesis
    by blast
qed

text \<open>
  C9. When the argument of \<^verbatim>\<open>createStyling\<close> is a string that resolves to a registered
  theme, the overlay copies the characters of the string under the keys \<^verbatim>\<open>'0'\<close> to
  \<^verbatim>\<open>length - 1\<close>. These keys are not reserved, so each is in the custom styling map with
  its one-character string, and in the merged map, where its value is \<^verbatim>\<open>mergeStyling\<close>
  of that string and the default map's value: the string itself when the default map has
  no such key. \<^verbatim>\<open>createStyling\<close> merges exactly this custom map.
\<close>

theorem string_theme_characters:
  assumes resolves: "getBase16Theme env (JStr s) base16Themes = Inr th" and found: "truthy th"
    and free: "\<forall>i<length s. show_nat i \<notin> set (BASE16_KEYS env)"
  shows "\<exists>input custom.
           effective_input env (JStr s) base16Themes = Inr (JObj input)
         \<and> build_customStyling env (JObj input) = Inr custom
         \<and> (\<forall>i<length s. lookup input (show_nat i) = JStr [s ! i]
                          \<and> lookup custom (show_nat i) = JStr [s ! i])
         \<and> (\<forall>ds. \<exists>merged.
                mergeStylings env (JObj custom) (JObj ds) = Inr (JObj merged)
              \<and> (\<forall>i<length s.
                    show_nat i \<in> fst ` set merged
                  \<and> lookup merged (show_nat i) = mergeStyling (JStr [s ! i]) (lookup ds (show_nat i))
                  \<and> (show_nat i \<notin> fst ` set ds \<longrightarrow> lookup merged (show_nat i) = JStr [s ! i])))
         \<and> (\<forall>getStylingFromBase16 options defaultBase16 args.
                read_options env (or_default options (JObj [])) = Inr (defaultBase16, base16Themes) \<longrightarrow>
                createStyling env getStylingFromBase16 options (JStr s) args =
                  rbind (build_theme env (JObj input) defaultBase16) (\<lambda>theme.
                  rbind (getStylingFromBase16 (JObj theme)) (\<lambda>defaultStyling.
                  rbind (mergeStylings env (JObj custom) defaultStyling) (\<lambda>mergedStyling.
                    curry_getStylingByKeys env mergedStyling args))))"
proof -
  define input where "input = spread (spread [] th) (JStr s)"
  define custom where "custom = fold (\<lambda>k. put k (lookup input k))
      (filter (\<lambda>k. k \<notin> set (BASE16_KEYS env)) (map fst input)) []"
  have eff: "effective_input env (JStr s) base16Themes = Inr (JObj input)"
    using resolves found by (simp add: effective_input_def rbind_Inr input_def)
  have cus: "build_customStyling env (JObj input) = Inr custom"
    unfolding custom_def by (rule build_customStyling_run)
  have li: "lookup input (show_nat i) = JStr [s ! i]" if "i < length s" for i
    using that by (simp add: input_def spread_string lookup_fold_put dec_val_show_nat)
  have ki: "show_nat i \<in> fst ` set input" if "i < length s" for i
    using that by (simp add: input_def spread_string keys_fold_put)
  have lc: "lookup custom (show_nat i) = JStr [s ! i]" if "i < length s" for i
    using that free ki [OF that] li [OF that] by (simp add: custom_def lookup_fold_put)
  have kc: "show_nat i \<in> fst ` set custom" if "i < length s" for i
    using that free ki [OF that] by (simp add: custom_def keys_fold_put)
  have dc: "distinct (map fst custom)"
    by (simp add: custom_def distinct_fold_put)
  have mg: "\<exists>merged. mergeStylings env (JObj custom) (JObj ds) = Inr (JObj merged)
      \<and> (\<forall>i<length s.
            show_nat i \<in> fst ` set merged
          \<and> lookup merged (show_nat i) = mergeStyling (JStr [s ! i]) (lookup ds (show_nat i))
          \<and> (show_nat i \<notin> fst ` set ds \<longrightarrow> lookup merged (show_nat i) = JStr [s ! i]))" for ds
  proof -
    obtain m where run: "mergeStylings env (JObj custom) (JObj ds) = Inr (JObj m)"
      and keys: "fst ` set m = fst ` set ds \<union> fst ` set custom"
      and vals: "\<forall>K. K \<notin> set object_prototype_names \<longrightarrow>
                     lookup m K = mergeStyling (lookup custom K) (lookup ds K)"
      using mergeStylings_lookup [OF dc, of env ds] by blast
    have "show_nat i \<in> fst ` set m
        \<and> lookup m (show_nat i) = mergeStyling (JStr [s ! i]) (lookup ds (show_nat i))
        \<and> (show_nat i \<notin> fst ` set ds \<longrightarrow> lookup m (show_nat i) = JStr [s ! i])"
      if "i < length s" for i
      using that keys vals show_nat_not_inherited [of i] kc [OF that] lc [OF that]
      by (simp add: lookup_notin mergeStyling_def)
    with run show ?thesis
      by blast
  qed
  have cs: "createStyling env getStylingFromBase16 options (JStr s) args =
      rbind (build_theme env (JObj input) defaultBase16) (\<lambda>theme.
      rbind (getStylingFromBase16 (JObj theme)) (\<lambda>defaultStyling.
      rbind (mergeStylings env (JObj custom) defaultStyling) (\<lambda>mergedStyling.
        curry_getStylingByKeys env mergedStyling args)))"
    if "read_options env (or_default options (JObj [])) = Inr (defaultBase16, base16Themes)"
    for getStylingFromBase16 options defaultBase16 args
    using that by (simp add: createStyling_def Let_def or_default_def eff cus rbind_Inr)
  from eff cus li lc mg cs show ?thesis
    by blast
qed

lemma getBase16Theme_default:
  "getBase16Theme sample_env (JStr ''default'') JNull = Inr (JObj sample_default)"
  by (simp add: getBase16Theme_def get_extend_string part_def sample_default_def run_simps)

theorem string_theme_characters_witness:
  "getBase16Theme sample_env (JStr ''default'') JNull = Inr (JObj sample_default)
   \<and> truthy (JObj sample_default)
   \<and> read_options sample_env (or_default JUndefined (JObj [])) = Inr (JObj sample_default, JNull)
   \<and> (\<exists>input custom merged.
          effective_input sample_env (JStr ''default'') JNull = Inr (JObj input)
        \<and> build_customStyling sample_env (JObj input) = Inr custom
        \<and> lookup custom ''0'' = JStr ''d''
        \<and> lookup custom ''6'' = JStr ''t''
        \<and> mergeStylings sample_env (JObj custom) (JObj []) = Inr (JObj merged)
        \<and> lookup merged ''0'' = JStr ''d''
        \<and> createStyling sample_env Inr JUndefined (JStr ''default'') [] =
            rbind (build_theme sample_env (JObj input) (JObj sample_default)) (\<lambda>theme.
            rbind (Inr (JObj theme)) (\<lambda>defaultStyling.
            rbind (mergeStylings sample_env (JObj custom) defaultStyling) (\<lambda>mergedStyling.
              curry_getStylingByKeys sample_env mergedStyling []))))"
proof -
  have found: "truthy (JObj sample_default)"
    by simp
  have "show_nat i \<notin> set (BASE16_KEYS sample_env)" for i
    using show_nat_digits [of i]
    by (auto simp: BASE16_KEYS_def sample_env_sel sample_default_def)
  then have free: "\<forall>i<length ''default''. show_nat i \<notin> set (BASE16_KEYS sample_env)"
    by blast
  have opts: "read_options sample_env (or_default JUndefined (JObj [])) =
      Inr (JObj sample_default, JNull)"
    by (simp add: or_default_def read_options_default)
  obtain input custom where eff: "effective_input sample_env (JStr ''default'') JNull = Inr (JObj input)"
    and cus: "build_customStyling sample_env (JObj input) = Inr custom"
    and chars: "\<forall>i<length ''default''. lookup input (show_nat i) = JStr [''default'' ! i]
                          \<and> lookup custom (show_nat i) = JStr [''default'' ! i]"
    and mg: "\<forall>ds. \<exists>merged.
                mergeStylings sample_env (JObj custom) (JObj ds) = Inr (JObj merged)
              \<and> (\<forall>i<length ''default''.
                    show_nat i \<in> fst ` set merged
                  \<and> lookup merged (show_nat i) =
                      mergeStyling (JStr [''default'' ! i]) (lookup ds (show_nat i))
                  \<and> (show_nat i \<notin> fst ` set ds \<longrightarrow>
                       lookup merged (show_nat i) = JStr [''default'' ! i]))"
    and cs: "\<forall>getStylingFromBase16 options defaultBase16 args.
                read_options sample_env (or_default options (JObj [])) = Inr (defaultBase16, JNull) \<longrightarrow>
                createStyling sample_env getStylingFromBase16 options (JStr ''default'') args =
                  rbind (build_theme sample_env (JObj input) defaultBase16) (\<lambda>theme.
                  rbind (getStylingFromBase16 (JObj theme)) (\<lambda>defaultStyling.
                  rbind (mergeStylings sample_env (JObj custom) defaultStyling) (\<lambda>mergedStyling.
                    curry_getStylingByKeys sample_env mergedStyling args)))"
    using string_theme_characters [OF getBase16Theme_default found free] by blast
  from mg obtain merged where run: "mergeStylings sample_env (JObj custom) (JObj []) = Inr (JObj merged)"
    and mv: "\<forall>i<length ''default''.
               show_nat i \<notin> fst ` set ([] :: props) \<longrightarrow>
               lookup merged (show_nat i) = JStr [''default'' ! i]"
    by blast
  have c0: "lookup custom ''0'' = JStr ''d''"
    using chars [rule_format, of 0] by (simp add: show_nat_0)
  have c6: "lookup custom ''6'' = JStr ''t''"
    using chars [rule_format, of 6] by (simp add: name_simps)
  have m0: "lookup merged ''0'' = JStr ''d''"
    using mv [rule_format, of 0] by (simp add: show_nat_0)
  have call: "createStyling sample_env Inr JUndefined (JStr ''default'') [] =
      rbind (build_theme sample_env (JObj input) (JObj sample_default)) (\<lambda>theme.
      rbind (Inr (JObj theme)) (\<lambda>defaultStyling.
      rbind (mergeStylings sample_env (JObj custom) defaultStyling) (\<lambda>mergedStyling.
        curry_getStylingByKeys sample_env mergedStyling [])))"
    using cs opts by blast
  have res: "\<exists>input custom merged.
          effective_input sample_env (JStr ''default'') JNull = Inr (JObj input)
        \<and> build_customStyling sample_env (JObj input) = Inr custom
        \<and> lookup custom ''0'' = JStr ''d''
        \<and> lookup custom ''6'' = JStr ''t''
        \<and> mergeStylings sample_env (JObj custom) (JObj []) = Inr (JObj merged)
        \<and> lookup merged ''0'' = JStr ''d''
        \<and> createStyling sample_env Inr JUndefined (JStr ''default'') [] =
            rbind (build_theme sample_env (JObj input) (JObj sample_default)) (\<lambda>theme.
            rbind (Inr (JObj theme)) (\<lambda>defaultStyling.
            rbind (mergeStylings sample_env (JObj custom) defaultStyling) (\<lambda>mergedStyling.
              curry_getStylingByKeys sample_env mergedStyling [])))"
    by (intro exI [where x = input] exI [where x = custom] exI [where x = merged])
       (rule conjI [OF eff conjI [OF cus conjI [OF c0 conjI [OF c6 conjI [OF run conjI [OF m0 call]]]]]])
  show ?thesis
    by (rule conjI [OF getBase16Theme_default conjI [OF found conjI [OF opts res]]])
qed

section \<open>An unknown theme name\<close>



end
